theory Spec2Isabelle
  imports Complex_Main "HOL-Library.Word"
begin

section \<open>Moveo: the exercise catalog, bookmarks and session lookup\<close>

text \<open>
  A shallow embedding of the application script (\<^verbatim>\<open>app.js\<close>) and of the
  \<^verbatim>\<open>saveExercise\<close> module. The module-level variables of the script become the
  fields of one state record that every function takes and returns; the page, the
  durable storage slot and the remote collaborator are explicit arguments.
\<close>

subsection \<open>Strings\<close>

text \<open>
  A JavaScript string is a sequence of 16-bit code units. \<open>js\<close> turns an ASCII
  literal into one, so that the texts of the source can be written as they are.
\<close>

type_synonym code_unit = "16 word"
type_synonym jsstring = "code_unit list"

definition js :: "string \<Rightarrow> jsstring" where
  "js s = map (\<lambda>c. of_nat (of_char c)) s"

subsection \<open>Errors\<close>

text \<open>The errors that the script and the platform throw; an \<open>Error\<close> carries its message.\<close>

datatype js_error = Error jsstring | TypeError | ReferenceError jsstring | SyntaxError
  | URIError

subsection \<open>JSON values and their text\<close>

text \<open>
  The values that \<^verbatim>\<open>JSON.parse\<close> builds. The model is exact on the values built
  from null, the booleans, strings and arrays, which the theorems below are about. It
  is coarser than the engine in two places, which no theorem depends on. A number is
  kept as the literal it was read from and written back as that literal, where the
  engine reads it as a double and prints the double (\<^verbatim>\<open>1e2\<close> as \<^verbatim>\<open>100\<close>). The
  members of an object are kept as they stand in the text, where the engine keeps the
  last of the members with one key and lists the keys that are array indices first.
\<close>

datatype json = JNull | JBool bool | JNum jsstring | JStr jsstring
  | JArr "json list" | JObj "(jsstring \<times> json) list"

text \<open>
  \<^verbatim>\<open>JSON.stringify\<close>, without a replacer or an indentation, as \<^verbatim>\<open>saveBookmarks\<close>
  calls it. Inside a string, the quote, the backslash and the control characters are
  escaped, the five that have a short escape with it and the others as
  \<^verbatim>\<open>\uXXXX\<close> in lower-case hexadecimal digits; a surrogate that is not half of a pair
  is escaped in the same way, and every other code unit stands for itself.
\<close>

definition hex_digit :: "nat \<Rightarrow> code_unit" where
  "hex_digit n = (if n < 10 then of_nat (48 + n) else of_nat (87 + n))"

definition unicode_escape :: "code_unit \<Rightarrow> jsstring" where
  "unicode_escape c =
     (let n = unat c in
      [0x5C, 0x75, hex_digit (n div 4096), hex_digit (n div 256 mod 16),
       hex_digit (n div 16 mod 16), hex_digit (n mod 16)])"

definition is_lead :: "code_unit \<Rightarrow> bool" where
  "is_lead c = (0xD800 \<le> c \<and> c \<le> 0xDBFF)"

definition is_trail :: "code_unit \<Rightarrow> bool" where
  "is_trail c = (0xDC00 \<le> c \<and> c \<le> 0xDFFF)"

definition quote_unit :: "code_unit \<Rightarrow> jsstring" where
  "quote_unit c =
     (if c = 0x08 then [0x5C, 0x62]
      else if c = 0x09 then [0x5C, 0x74]
      else if c = 0x0A then [0x5C, 0x6E]
      else if c = 0x0C then [0x5C, 0x66]
      else if c = 0x0D then [0x5C, 0x72]
      else if c = 0x22 then [0x5C, 0x22]
      else if c = 0x5C then [0x5C, 0x5C]
      else if c < 0x20 \<or> is_lead c \<or> is_trail c then unicode_escape c
      else [c])"

fun quote_units :: "jsstring \<Rightarrow> jsstring" where
  "quote_units [] = []"
| "quote_units [c] = quote_unit c"
| "quote_units (c # d # ds) =
     (if is_lead c \<and> is_trail d then c # d # quote_units ds
      else quote_unit c @ quote_units (d # ds))"

definition QuoteJSONString :: "jsstring \<Rightarrow> jsstring" where
  "QuoteJSONString s = [0x22] @ quote_units s @ [0x22]"

fun join :: "jsstring \<Rightarrow> jsstring list \<Rightarrow> jsstring" where
  "join sep [] = []"
| "join sep [x] = x"
| "join sep (x # y # ys) = x @ sep @ join sep (y # ys)"

fun JSON_stringify :: "json \<Rightarrow> jsstring" where
  "JSON_stringify JNull = js ''null''"
| "JSON_stringify (JBool b) = (if b then js ''true'' else js ''false'')"
| "JSON_stringify (JNum n) = n"
| "JSON_stringify (JStr s) = QuoteJSONString s"
| "JSON_stringify (JArr vs) = js ''['' @ join (js '','') (map JSON_stringify vs) @ js '']''"
| "JSON_stringify (JObj ms) =
     js ''{'' @ join (js '','')
        (map (\<lambda>(k, v). QuoteJSONString k @ js '':'' @ JSON_stringify v) ms) @ js ''}''"

text \<open>
  \<^verbatim>\<open>JSON.parse\<close>, in two passes that each read their input once: the text is cut
  into tokens by a machine with a state for the inside of a string, of an escape and
  of a literal; the tokens are assembled by a machine with a stack of the arrays and
  objects that are open. \<open>None\<close> at any step is the SyntaxError of the platform.
\<close>

datatype token = TLBracket | TRBracket | TLBrace | TRBrace | TComma | TColon
  | TString jsstring | TLiteral json

definition is_ws :: "code_unit \<Rightarrow> bool" where
  "is_ws c = (c = 0x20 \<or> c = 0x09 \<or> c = 0x0A \<or> c = 0x0D)"

definition is_digit :: "code_unit \<Rightarrow> bool" where
  "is_digit c = (0x30 \<le> c \<and> c \<le> 0x39)"

definition is_word_unit :: "code_unit \<Rightarrow> bool" where
  "is_word_unit c =
     (is_digit c \<or> (0x61 \<le> c \<and> c \<le> 0x7A) \<or> (0x41 \<le> c \<and> c \<le> 0x5A) \<or>
      c = 0x2B \<or> c = 0x2D \<or> c = 0x2E)"

definition hex_value :: "code_unit \<Rightarrow> nat option" where
  "hex_value c =
     (if is_digit c then Some (unat c - 48)
      else if 0x61 \<le> c \<and> c \<le> 0x66 then Some (unat c - 87)
      else if 0x41 \<le> c \<and> c \<le> 0x46 then Some (unat c - 55)
      else None)"

text \<open>The number grammar of JSON:
  \<^verbatim>\<open>-? (0 | [1-9][0-9]*) (. [0-9]+)? ([eE] [+-]? [0-9]+)?\<close>.\<close>

definition digits1 :: "jsstring \<Rightarrow> jsstring option" where
  "digits1 cs = (case cs of [] \<Rightarrow> None
     | c # _ \<Rightarrow> if is_digit c then Some (dropWhile is_digit cs) else None)"

definition number_int :: "jsstring \<Rightarrow> jsstring option" where
  "number_int cs = (case cs of [] \<Rightarrow> None
     | c # rest \<Rightarrow> if c = 0x30 then Some rest else digits1 cs)"

definition number_frac :: "jsstring \<Rightarrow> jsstring option" where
  "number_frac cs = (case cs of [] \<Rightarrow> Some []
     | c # rest \<Rightarrow> if c = 0x2E then digits1 rest else Some cs)"

definition number_exp :: "jsstring \<Rightarrow> jsstring option" where
  "number_exp cs = (case cs of [] \<Rightarrow> Some []
     | c # rest \<Rightarrow>
         if c = 0x65 \<or> c = 0x45 then
           (case rest of [] \<Rightarrow> None
            | d # rest' \<Rightarrow> if d = 0x2B \<or> d = 0x2D then digits1 rest' else digits1 rest)
         else Some cs)"

definition is_number :: "jsstring \<Rightarrow> bool" where
  "is_number cs =
     (case number_int (case cs of [] \<Rightarrow> [] | c # rest \<Rightarrow> if c = 0x2D then rest else cs) of
        None \<Rightarrow> False
      | Some r1 \<Rightarrow> (case number_frac r1 of None \<Rightarrow> False
          | Some r2 \<Rightarrow> number_exp r2 = Some []))"

definition word_token :: "jsstring \<Rightarrow> token option" where
  "word_token w =
     (if w = js ''null'' then Some (TLiteral JNull)
      else if w = js ''true'' then Some (TLiteral (JBool True))
      else if w = js ''false'' then Some (TLiteral (JBool False))
      else if is_number w then Some (TLiteral (JNum w))
      else None)"

datatype lex_state = LIdle | LString jsstring | LEscape jsstring
  | LUnicode jsstring nat nat | LWord jsstring

definition lex_idle :: "token list \<Rightarrow> code_unit \<Rightarrow> (lex_state \<times> token list) option" where
  "lex_idle toks c =
     (if is_ws c then Some (LIdle, toks)
      else if c = 0x22 then Some (LString [], toks)
      else if c = 0x5B then Some (LIdle, TLBracket # toks)
      else if c = 0x5D then Some (LIdle, TRBracket # toks)
      else if c = 0x7B then Some (LIdle, TLBrace # toks)
      else if c = 0x7D then Some (LIdle, TRBrace # toks)
      else if c = 0x2C then Some (LIdle, TComma # toks)
      else if c = 0x3A then Some (LIdle, TColon # toks)
      else if is_word_unit c then Some (LWord [c], toks)
      else None)"

definition lex_escape :: "jsstring \<Rightarrow> code_unit \<Rightarrow> lex_state option" where
  "lex_escape acc c =
     (if c = 0x22 \<or> c = 0x5C \<or> c = 0x2F then Some (LString (c # acc))
      else if c = 0x62 then Some (LString (0x08 # acc))
      else if c = 0x66 then Some (LString (0x0C # acc))
      else if c = 0x6E then Some (LString (0x0A # acc))
      else if c = 0x72 then Some (LString (0x0D # acc))
      else if c = 0x74 then Some (LString (0x09 # acc))
      else if c = 0x75 then Some (LUnicode acc 0 0)
      else None)"

fun lex_step :: "lex_state \<times> token list \<Rightarrow> code_unit \<Rightarrow> (lex_state \<times> token list) option" where
  "lex_step (LIdle, toks) c = lex_idle toks c"
| "lex_step (LString acc, toks) c =
     (if c = 0x22 then Some (LIdle, TString (rev acc) # toks)
      else if c = 0x5C then Some (LEscape acc, toks)
      else if c < 0x20 then None
      else Some (LString (c # acc), toks))"
| "lex_step (LEscape acc, toks) c =
     (case lex_escape acc c of None \<Rightarrow> None | Some st \<Rightarrow> Some (st, toks))"
| "lex_step (LUnicode acc k v, toks) c =
     (case hex_value c of None \<Rightarrow> None
      | Some h \<Rightarrow>
          if k = 3 then Some (LString (of_nat (v * 16 + h) # acc), toks)
          else Some (LUnicode acc (k + 1) (v * 16 + h), toks))"
| "lex_step (LWord acc, toks) c =
     (if is_word_unit c then Some (LWord (c # acc), toks)
      else (case word_token (rev acc) of None \<Rightarrow> None
            | Some t \<Rightarrow> lex_idle (t # toks) c))"

fun lex_run :: "lex_state \<times> token list \<Rightarrow> jsstring \<Rightarrow> token list option" where
  "lex_run (LIdle, toks) [] = Some (rev toks)"
| "lex_run (LWord acc, toks) [] =
     (case word_token (rev acc) of None \<Rightarrow> None | Some t \<Rightarrow> Some (rev (t # toks)))"
| "lex_run (st, toks) [] = None"
| "lex_run st (c # cs) =
     (case lex_step st c of None \<Rightarrow> None | Some st' \<Rightarrow> lex_run st' cs)"

datatype frame = FArray "json list" | FObject "(jsstring \<times> json) list" "jsstring option"

datatype parse_state = PValue | PValueOrEnd | PAfterValue | PKey | PKeyOrEnd | PColon
  | PDone json

fun push_value :: "json \<Rightarrow> frame list \<Rightarrow> (frame list \<times> parse_state) option" where
  "push_value v [] = Some ([], PDone v)"
| "push_value v (FArray es # fs) = Some (FArray (v # es) # fs, PAfterValue)"
| "push_value v (FObject ms (Some k) # fs) = Some (FObject ((k, v) # ms) None # fs, PAfterValue)"
| "push_value v (FObject ms None # fs) = None"

definition parse_value_token :: "frame list \<Rightarrow> token \<Rightarrow> (frame list \<times> parse_state) option" where
  "parse_value_token fs t =
     (case t of
        TLiteral v \<Rightarrow> push_value v fs
      | TString s \<Rightarrow> push_value (JStr s) fs
      | TLBracket \<Rightarrow> Some (FArray [] # fs, PValueOrEnd)
      | TLBrace \<Rightarrow> Some (FObject [] None # fs, PKeyOrEnd)
      | _ \<Rightarrow> None)"

definition close_array :: "frame list \<Rightarrow> (frame list \<times> parse_state) option" where
  "close_array fs = (case fs of FArray es # fs' \<Rightarrow> push_value (JArr (rev es)) fs' | _ \<Rightarrow> None)"

definition close_object :: "frame list \<Rightarrow> (frame list \<times> parse_state) option" where
  "close_object fs =
     (case fs of FObject ms None # fs' \<Rightarrow> push_value (JObj (rev ms)) fs' | _ \<Rightarrow> None)"

definition parse_key_token :: "frame list \<Rightarrow> token \<Rightarrow> (frame list \<times> parse_state) option" where
  "parse_key_token fs t =
     (case (t, fs) of
        (TString k, FObject ms None # fs') \<Rightarrow> Some (FObject ms (Some k) # fs', PColon)
      | _ \<Rightarrow> None)"

fun parse_step :: "frame list \<times> parse_state \<Rightarrow> token \<Rightarrow> (frame list \<times> parse_state) option" where
  "parse_step (fs, PValue) t = parse_value_token fs t"
| "parse_step (fs, PValueOrEnd) t =
     (if t = TRBracket then close_array fs else parse_value_token fs t)"
| "parse_step (fs, PAfterValue) t =
     (if t = TComma then
        (case fs of FArray es # _ \<Rightarrow> Some (fs, PValue)
         | FObject ms None # _ \<Rightarrow> Some (fs, PKey)
         | _ \<Rightarrow> None)
      else if t = TRBracket then close_array fs
      else if t = TRBrace then close_object fs
      else None)"
| "parse_step (fs, PKey) t = parse_key_token fs t"
| "parse_step (fs, PKeyOrEnd) t =
     (if t = TRBrace then close_object fs else parse_key_token fs t)"
| "parse_step (fs, PColon) t = (if t = TColon then Some (fs, PValue) else None)"
| "parse_step (fs, PDone v) t = None"

fun parse_run :: "frame list \<times> parse_state \<Rightarrow> token list \<Rightarrow> json option" where
  "parse_run (fs, PDone v) [] = Some v"
| "parse_run (fs, st) [] = None"
| "parse_run st (t # ts) =
     (case parse_step st t of None \<Rightarrow> None | Some st' \<Rightarrow> parse_run st' ts)"

definition JSON_parse :: "jsstring \<Rightarrow> js_error + json" where
  "JSON_parse text =
     (case lex_run (LIdle, []) text of
        None \<Rightarrow> Inl SyntaxError
      | Some toks \<Rightarrow>
          (case parse_run ([], PValue) toks of None \<Rightarrow> Inl SyntaxError | Some v \<Rightarrow> Inr v))"


subsection \<open>Exercise records and the catalog\<close>

text \<open>
  The fields an exercise object is read at in the script. The four last ones are
  optional: \<open>None\<close> is a property that the object does not have.
\<close>

record exercise =
  exercise_id :: jsstring
  exercise_name :: jsstring
  description :: jsstring
  duration :: nat
  difficulty :: jsstring
  category :: jsstring
  muscleGroups :: "jsstring list"
  tips :: "jsstring list"
  commonMistakes :: "jsstring list option"
  progression :: "jsstring list option"
  rhythm :: "jsstring option"
  previewVideo :: "jsstring option"

text \<open>\<^verbatim>\<open>Array.prototype.find\<close>: the first element the predicate holds of, or undefined.\<close>

primrec array_find :: "('a \<Rightarrow> bool) \<Rightarrow> 'a list \<Rightarrow> 'a option" where
  "array_find p [] = None"
| "array_find p (x # xs) = (if p x then Some x else array_find p xs)"

text \<open>\<^verbatim>\<open>exercises.find(ex => ex.id === id)\<close>, as \<^verbatim>\<open>viewExercise\<close>,
  \<^verbatim>\<open>initExercisePage\<close> and \<^verbatim>\<open>toggleBookmark\<close> write it.\<close>

definition find_by_id :: "exercise list \<Rightarrow> jsstring \<Rightarrow> exercise option" where
  "find_by_id exercises i = array_find (\<lambda>ex. exercise_id ex = i) exercises"

text \<open>Reading an array at an index: undefined out of range.\<close>

definition array_index :: "'a list \<Rightarrow> nat \<Rightarrow> 'a option" where
  "array_index xs i = (if i < length xs then Some (xs ! i) else None)"

text \<open>
  \<^verbatim>\<open>getDailyExercise\<close>. The day of the month that \<^verbatim>\<open>new Date().getDate()\<close>
  reads from the clock is the argument \<open>day\<close>. \<open>None\<close> is the \<^verbatim>\<open>null\<close> of the
  empty catalog (and the undefined of a read out of range, which never happens).
\<close>

definition getDailyExercise :: "exercise list \<Rightarrow> nat \<Rightarrow> exercise option" where
  "getDailyExercise exercises day =
     (if length exercises = 0 then None
      else let dayIndex = day mod length exercises in array_index exercises dayIndex)"

text \<open>
  The value of the variable \<^verbatim>\<open>exercises\<close>: the initial empty array, or what the body
  of the response was parsed to, which the script stores without looking at it. It is
  an array of exercise records, or a value that is not an array. Of such a value the
  script reads its \<^verbatim>\<open>find\<close>, \<^verbatim>\<open>map\<close> and \<^verbatim>\<open>length\<close> properties only. No JSON
  value has a function as a property, so a call of \<^verbatim>\<open>find\<close> or of \<^verbatim>\<open>map\<close> on it
  throws a TypeError; reading \<^verbatim>\<open>length\<close> throws on null, is 0 on the empty string and
  on an object with such a member, and is something else on any other value. These
  three cases are the three values of \<open>non_array\<close>. An array whose elements are not
  exercise records is outside this model.
\<close>

datatype non_array = NullValue | ZeroLength | OtherValue

datatype catalog = Records "exercise list" | NotArray non_array

subsection \<open>Values, completions and promises\<close>

text \<open>
  How a call ends: it returns a value (undefined, for a function with no
  \<^verbatim>\<open>return\<close> of a value) or throws. An \<^verbatim>\<open>async\<close> function that throws is a
  promise that rejects.
\<close>

datatype js_value = Undefined | Boolean bool

datatype 'a completion = Returned 'a | Thrown js_error

text \<open>An awaited promise of a collaborator, as it settles.\<close>

datatype 'a promise = Resolved 'a | Rejected js_error

subsection \<open>The page and the state of the script\<close>

record video =
  video_src :: jsstring
  playbackRate :: rat
  play_called :: bool

text \<open>
  The elements that the functions below look up by id; \<open>None\<close> is an element the
  page does not have. For \<^verbatim>\<open>#gallery\<close>, \<^verbatim>\<open>#exerciseDetail\<close> and
  \<^verbatim>\<open>#tipsOverlay\<close> the value tells whether the class \<^verbatim>\<open>hidden\<close> is set; for the
  two containers it is their \<^verbatim>\<open>innerHTML\<close>.
\<close>

record page =
  gallery :: "bool option"
  exerciseDetail :: "bool option"
  exerciseDetailContent :: "jsstring option"
  exercisesGrid :: "jsstring option"
  tipsOverlay :: "bool option"
  exerciseVideo :: "video option"

text \<open>
  The six module-level variables of the script, then what the script reads and writes
  outside itself: the storage slot \<^verbatim>\<open>moveoBookmarks\<close>, the page, the history
  entries pushed, the messages shown, announced and logged. The script reads two
  identifiers it never declares, \<^verbatim>\<open>backMarkup\<close> and \<^verbatim>\<open>options\<close>; they resolve to
  properties of the global object: \<open>None\<close> when nothing outside the script defines
  them. For \<^verbatim>\<open>options\<close>, the value is its \<^verbatim>\<open>baseUrl\<close>, if it has one.
\<close>

record app_state =
  exercises :: catalog
  bookmarkedExercises :: json
  currentExercise :: "exercise option"
  animationSpeed :: rat
  isPlaying :: bool
  showMuscleHighlight :: bool
  localStorage :: "jsstring option"
  document :: page
  window_backMarkup :: "jsstring option"
  window_options :: "jsstring option option"
  history :: "(jsstring \<times> jsstring) list"
  alerts :: "jsstring list"
  announcements :: "jsstring list"
  console :: "jsstring list"

text \<open>
  \<^verbatim>\<open>showError\<close> and \<^verbatim>\<open>announceToScreenReader\<close> append an element with the
  message to the body of the page and remove it after a delay; the state records the
  messages in the order they were shown. \<open>console_error\<close> is \<^verbatim>\<open>console.error\<close>.
\<close>

definition showError :: "jsstring \<Rightarrow> app_state \<Rightarrow> app_state" where
  "showError message s = s\<lparr>alerts := alerts s @ [message]\<rparr>"

definition announceToScreenReader :: "jsstring \<Rightarrow> app_state \<Rightarrow> app_state" where
  "announceToScreenReader message s = s\<lparr>announcements := announcements s @ [message]\<rparr>"

definition console_error :: "jsstring \<Rightarrow> app_state \<Rightarrow> app_state" where
  "console_error message s = s\<lparr>console := console s @ [message]\<rparr>"

subsection \<open>Bookmarks\<close>

text \<open>
  \<^verbatim>\<open>bookmarkedExercises\<close> holds whatever \<^verbatim>\<open>JSON.parse\<close> made of the stored text,
  so the methods called on it are modelled on every value: \<^verbatim>\<open>includes\<close> and
  \<^verbatim>\<open>indexOf\<close> exist on arrays and on strings (where they search for a substring),
  \<^verbatim>\<open>push\<close> and \<^verbatim>\<open>splice\<close> on arrays only, and a call of a method that a value
  does not have throws a TypeError.
\<close>

primrec array_indexOf :: "'a list \<Rightarrow> 'a \<Rightarrow> nat option" where
  "array_indexOf [] x = None"
| "array_indexOf (y # ys) x =
     (if y = x then Some 0 else map_option Suc (array_indexOf ys x))"

definition splice1 :: "'a list \<Rightarrow> nat \<Rightarrow> 'a list" where
  "splice1 xs index = take index xs @ drop (Suc index) xs"

primrec starts_with :: "jsstring \<Rightarrow> jsstring \<Rightarrow> bool" where
  "starts_with s [] = True"
| "starts_with s (c # cs) = (case s of [] \<Rightarrow> False | d # ds \<Rightarrow> d = c \<and> starts_with ds cs)"

primrec string_includes :: "jsstring \<Rightarrow> jsstring \<Rightarrow> bool" where
  "string_includes [] x = (x = [])"
| "string_includes (c # cs) x = (starts_with (c # cs) x \<or> string_includes cs x)"

definition js_includes :: "json \<Rightarrow> jsstring \<Rightarrow> js_error + bool" where
  "js_includes v x =
     (case v of
        JArr es \<Rightarrow> Inr (JStr x \<in> set es)
      | JStr str \<Rightarrow> Inr (string_includes str x)
      | _ \<Rightarrow> Inl TypeError)"

text \<open>
  \<^verbatim>\<open>loadBookmarks\<close>: an absent slot and the empty text are falsy and change nothing;
  what \<^verbatim>\<open>JSON.parse\<close> throws is caught. Reading and writing the slot itself are taken
  to succeed.
\<close>

definition loadBookmarks :: "app_state \<Rightarrow> app_state" where
  "loadBookmarks s =
     (case localStorage s of
        None \<Rightarrow> s
      | Some stored \<Rightarrow>
          if stored = [] then s
          else (case JSON_parse stored of
                  Inr v \<Rightarrow> s\<lparr>bookmarkedExercises := v\<rparr>
                | Inl error \<Rightarrow>
                    (console_error (js ''Error parsing bookmarks:'') s)
                      \<lparr>bookmarkedExercises := JArr []\<rparr>))"

definition saveBookmarks :: "app_state \<Rightarrow> app_state" where
  "saveBookmarks s = s\<lparr>localStorage := Some (JSON_stringify (bookmarkedExercises s))\<rparr>"

subsection \<open>Markup\<close>

text \<open>
  The template literals of the script, with the line breaks and the indentation
  between their tags left out. Code units beyond ASCII are written as numbers.
\<close>

definition getCategoryIcon :: "jsstring \<Rightarrow> jsstring" where
  "getCategoryIcon c =
     (if c = js ''strength'' then [0xD83D, 0xDCAA]
      else if c = js ''cardio'' then [0x2764, 0xFE0F]
      else if c = js ''flexibility'' then [0xD83E, 0xDDD8]
      else if c = js ''balance'' then [0x2696, 0xFE0F]
      else [0x2B50])"

fun number_to_string :: "nat \<Rightarrow> jsstring" where
  "number_to_string n =
     (if n < 10 then [of_nat (48 + n)]
      else number_to_string (n div 10) @ [of_nat (48 + n mod 10)])"

definition truthy :: "jsstring option \<Rightarrow> bool" where
  "truthy v = (case v of None \<Rightarrow> False | Some str \<Rightarrow> str \<noteq> [])"

definition bookmark_button :: "bool \<Rightarrow> jsstring \<Rightarrow> exercise \<Rightarrow> jsstring" where
  \<open>bookmark_button isBookmarked handler exercise =
     js ''<button class="bookmark-btn '' @ (if isBookmarked then js ''bookmarked'' else []) @
     js ''" onclick="'' @ handler @ js ''toggleBookmark('' @ [0x27] @ exercise_id exercise @ [0x27] @
     js '')" aria-label="'' @ (if isBookmarked then js ''Remove'' else js ''Add'') @ js '' '' @
     exercise_name exercise @ js '' to bookmarks" aria-pressed="'' @
     (if isBookmarked then js ''true'' else js ''false'') @
     js ''"><svg aria-hidden="true" viewBox="0 0 24 24"><path d="M17 3H7c-1.1 0-2 .9-2 2v16l7-3 7 3V5c0-1.1-.9-2-2-2z"/></svg>'' @
     (if isBookmarked then js ''Bookmarked'' else js ''Bookmark'') @ js ''</button>''\<close>

definition exercise_meta :: "jsstring \<Rightarrow> jsstring \<Rightarrow> exercise \<Rightarrow> jsstring" where
  \<open>exercise_meta before after exercise =
     js ''<div class="exercise-meta"><span>'' @ [0x23F1, 0xFE0F] @ js '' '' @ before @
     number_to_string (duration exercise) @ after @
     js ''</span><span class="difficulty-badge '' @ difficulty exercise @ js ''">'' @
     difficulty exercise @ js ''</span><span>'' @ getCategoryIcon (category exercise) @ js '' '' @
     category exercise @ js ''</span></div>''\<close>

definition createExerciseCard :: "app_state \<Rightarrow> exercise \<Rightarrow> js_error + jsstring" where
  \<open>createExerciseCard s exercise =
     (case js_includes (bookmarkedExercises s) (exercise_id exercise) of
        Inl e \<Rightarrow> Inl e
      | Inr isBookmarked \<Rightarrow> Inr (
          js ''<article class="exercise-card" tabindex="0" role="button" aria-label="View '' @
          exercise_name exercise @ js '' exercise"><div class="exercise-thumbnail">'' @
          (if truthy (previewVideo exercise)
           then js ''<video src="'' @ the (previewVideo exercise) @
                js ''" muted loop playsinline aria-hidden="true"></video>''
           else js ''<div class="placeholder-icon" aria-hidden="true">'' @
                getCategoryIcon (category exercise) @ js ''</div>'') @
          js ''</div><div class="exercise-info"><h3>'' @ exercise_name exercise @ js ''</h3><p>'' @
          take 100 (description exercise) @
          (if length (description exercise) > 100 then js ''...'' else []) @ js ''</p>'' @
          exercise_meta [] (js '' min'') exercise @
          bookmark_button isBookmarked (js ''event.stopPropagation(); '') exercise @
          js ''</div></article>''))\<close>

text \<open>\<^verbatim>\<open>exercises.map(createExerciseCard).join('')\<close>: the first card that throws ends it.\<close>

fun create_cards :: "app_state \<Rightarrow> exercise list \<Rightarrow> js_error + jsstring" where
  "create_cards s [] = Inr []"
| "create_cards s (ex # exs) =
     (case createExerciseCard s ex of
        Inl e \<Rightarrow> Inl e
      | Inr markup \<Rightarrow>
          (case create_cards s exs of Inl e \<Rightarrow> Inl e | Inr rest \<Rightarrow> Inr (markup @ rest)))"

definition set_exercisesGrid :: "jsstring \<Rightarrow> app_state \<Rightarrow> app_state" where
  "set_exercisesGrid markup s = s\<lparr>document := (document s)\<lparr>exercisesGrid := Some markup\<rparr>\<rparr>"

text \<open>
  \<^verbatim>\<open>encodeURIComponent\<close> throws a URIError on a string with a surrogate that is not
  half of a pair, and on no other string.
\<close>

fun has_lone_surrogate :: "jsstring \<Rightarrow> bool" where
  "has_lone_surrogate [] = False"
| "has_lone_surrogate [c] = (is_lead c \<or> is_trail c)"
| "has_lone_surrogate (c # d # ds) =
     (if is_lead c \<and> is_trail d then has_lone_surrogate ds
      else is_lead c \<or> is_trail c \<or> has_lone_surrogate (d # ds))"

text \<open>
  \<^verbatim>\<open>renderExerciseGallery\<close>. After the cards are assigned to the grid, the loop over
  them builds the address of each exercise with \<^verbatim>\<open>encodeURIComponent(exercise.id)\<close>
  and attaches the listeners, which are not part of the state: the loop shows in the
  model only where it throws. There is one card for each record (the fields of a
  record are taken to hold no markup of a card).
\<close>

definition renderExerciseGallery :: "app_state \<Rightarrow> js_value completion \<times> app_state" where
  \<open>renderExerciseGallery s =
     (case exercisesGrid (document s) of
        None \<Rightarrow> (Returned Undefined, s)
      | Some _ \<Rightarrow>
          (case exercises s of
             NotArray NullValue \<Rightarrow> (Thrown TypeError, s)
           | NotArray ZeroLength \<Rightarrow>
               (Returned Undefined,
                set_exercisesGrid
                  (js ''<p class="no-exercises">No exercises available. Please check back soon!</p>'') s)
           | NotArray OtherValue \<Rightarrow> (Thrown TypeError, s)
           | Records records \<Rightarrow>
               if length records = 0 then
                 (Returned Undefined,
                  set_exercisesGrid
                    (js ''<p class="no-exercises">No exercises available. Please check back soon!</p>'') s)
               else (case create_cards s records of
                       Inl e \<Rightarrow> (Thrown e, s)
                     | Inr cards \<Rightarrow>
                         if list_ex (\<lambda>exercise. has_lone_surrogate (exercise_id exercise)) records
                         then (Thrown URIError, set_exercisesGrid cards s)
                         else (Returned Undefined, set_exercisesGrid cards s))))\<close>

definition animation_controls :: "app_state \<Rightarrow> jsstring" where
  \<open>animation_controls s =
     js ''<div class="animation-controls" role="group" aria-label="Animation controls">'' @
     js ''<button id="playPauseBtn" class="control-btn '' @
     (if isPlaying s then js ''active'' else []) @
     js ''" onclick="togglePlayPause()" aria-label="'' @
     (if isPlaying s then js ''Pause'' else js ''Play'') @
     js '' animation"><svg aria-hidden="true" viewBox="0 0 24 24">'' @
     (if isPlaying s then js ''<path d="M6 4h4v16H6V4zm8 0h4v16h-4V4z"/>''
      else js ''<path d="M8 5v14l11-7z"/>'') @
     js ''</svg>'' @ (if isPlaying s then js ''Pause'' else js ''Play'') @ js ''</button>'' @
     js ''<button id="slowMotionBtn" class="control-btn '' @
     (if animationSpeed s = 1 / 2 then js ''active'' else []) @
     js ''" onclick="toggleSlowMotion()" aria-label="Toggle slow motion"><svg aria-hidden="true" viewBox="0 0 24 24"><path d="M10 8v8l6-4-6-4zm11-5H3v18h18V3zm-2 16H5V5h14v14z"/></svg>Slow Motion</button>'' @
     js ''<button id="highlightMusclesBtn" class="control-btn '' @
     (if showMuscleHighlight s then js ''active'' else []) @
     js ''" onclick="toggleMuscleHighlight()" aria-label="Toggle muscle highlight"><svg aria-hidden="true" viewBox="0 0 24 24"><path d="M12 2C6.48 2 2 6.48 2 12s4.48 10 10 10 10-4.48 10-10S17.52 2 12 2zm-2 15l-5-5 1.41-1.41L10 14.17l7.59-7.59L19 8l-9 9z"/></svg>Highlight Muscles</button></div>''\<close>

definition animation_container :: "app_state \<Rightarrow> exercise \<Rightarrow> jsstring" where
  \<open>animation_container s exercise =
     js ''<div class="exercise-animation-container"><div class="animation-display" id="animationDisplay" role="img" aria-label="Animation of '' @
     exercise_name exercise @ js '' exercise">'' @
     (if truthy (previewVideo exercise)
      then js ''<video id="exerciseVideo" src="'' @ the (previewVideo exercise) @
           js ''" muted loop playsinline aria-label="Video demonstration of '' @
           exercise_name exercise @ js ''"></video>''
      else js ''<div class="placeholder-animation" aria-hidden="true">'' @
           getCategoryIcon (category exercise) @ js ''</div>'') @
     js ''</div>'' @ animation_controls s @ js ''</div>''\<close>

definition list_items :: "jsstring \<Rightarrow> jsstring list \<Rightarrow> jsstring" where
  \<open>list_items open_tag items = concat (map (\<lambda>item. open_tag @ item @ js ''</li>'') items)\<close>

definition exercise_info :: "app_state \<Rightarrow> exercise \<Rightarrow> jsstring" where
  \<open>exercise_info s exercise =
     js ''<div class="exercise-info"><p>'' @ description exercise @ js ''</p>'' @
     exercise_meta (js ''Duration: '') (js '' minutes'') exercise @
     js ''<div class="muscle-groups"><h3>Target Muscles</h3><div id="muscleTags">'' @
     concat (map (\<lambda>muscle. js ''<span class="muscle-highlight '' @
                    (if showMuscleHighlight s then js ''active'' else []) @ js ''">'' @
                    muscle @ js ''</span>'') (muscleGroups exercise)) @
     js ''</div></div><button class="btn-primary" onclick="toggleTipsOverlay()" aria-expanded="false" aria-controls="tipsOverlay">Show Form Tips</button></div>''\<close>

definition commonMistakes_section :: "exercise \<Rightarrow> jsstring" where
  \<open>commonMistakes_section exercise =
     (case commonMistakes exercise of
        None \<Rightarrow> []
      | Some mistakes \<Rightarrow>
          js ''<h3 style="margin-top: 2rem;">Common Mistakes to Avoid</h3><ul class="tips-list" style="list-style-type: disc;">'' @
          list_items (js ''<li style="color: var(--error);">'') mistakes @ js ''</ul>'')\<close>

definition progression_section :: "exercise \<Rightarrow> jsstring" where
  \<open>progression_section exercise =
     (case progression exercise of
        None \<Rightarrow> []
      | Some steps \<Rightarrow>
          js ''<h3 style="margin-top: 2rem;">Progression Tips</h3><ul class="tips-list">'' @
          list_items (js ''<li>'') steps @ js ''</ul>'')\<close>

definition rhythm_section :: "exercise \<Rightarrow> jsstring" where
  \<open>rhythm_section exercise =
     (if truthy (rhythm exercise) then
        js ''<div style="margin-top: 2rem; padding: 1rem; background: var(--light); border-radius: 8px;"><strong>'' @
        [0xD83D, 0xDCA1] @ js '' Rhythm & Timing:</strong> '' @ the (rhythm exercise) @ js ''</div>''
      else [])\<close>

definition tips_overlay :: "exercise \<Rightarrow> jsstring" where
  \<open>tips_overlay exercise =
     js ''<div id="tipsOverlay" class="tips-overlay hidden" role="region" aria-labelledby="tipsHeading"><h3 id="tipsHeading">Form Tips</h3><ul class="tips-list">'' @
     list_items (js ''<li>'') (tips exercise) @ js ''</ul>'' @
     commonMistakes_section exercise @ progression_section exercise @ rhythm_section exercise @
     js ''</div>''\<close>

text \<open>
  The template of \<^verbatim>\<open>renderExerciseDetail\<close>. Its substitutions are evaluated in
  order; the last one reads \<^verbatim>\<open>backMarkup\<close>, and reading an identifier that nothing
  defines throws a ReferenceError.
\<close>

definition detail_markup :: "app_state \<Rightarrow> exercise \<Rightarrow> bool \<Rightarrow> js_error + jsstring" where
  \<open>detail_markup s exercise isBookmarked =
     (let body =
        js ''<div class="exercise-detail"><header><h1>'' @ exercise_name exercise @ js ''</h1>'' @
        bookmark_button isBookmarked [] exercise @ js ''</header>'' @
        animation_container s exercise @ exercise_info s exercise @ tips_overlay exercise @
        js ''</div>''
      in case window_backMarkup s of
           None \<Rightarrow> Inl (ReferenceError (js ''backMarkup is not defined''))
         | Some backMarkup \<Rightarrow> Inr (body @ backMarkup))\<close>

text \<open>
  Assigning the markup to the container's \<^verbatim>\<open>innerHTML\<close> builds its elements anew:
  the tips overlay, hidden, and the video when the record has a preview.
\<close>

definition set_exerciseDetailContent :: "jsstring \<Rightarrow> exercise \<Rightarrow> app_state \<Rightarrow> app_state" where
  "set_exerciseDetailContent markup exercise s =
     s\<lparr>document := (document s)
        \<lparr>exerciseDetailContent := Some markup,
         tipsOverlay := Some True,
         exerciseVideo :=
           (if truthy (previewVideo exercise)
            then Some \<lparr>video_src = the (previewVideo exercise), playbackRate = 1, play_called = False\<rparr>
            else None)\<rparr>\<rparr>"

definition setup_video :: "exercise \<Rightarrow> app_state \<Rightarrow> js_value completion \<times> app_state" where
  "setup_video exercise s =
     (case exerciseVideo (document s) of
        None \<Rightarrow> (Returned Undefined, s)
      | Some v \<Rightarrow>
          if \<not> truthy (previewVideo exercise) then (Returned Undefined, s)
          else (case window_options s of
                  None \<Rightarrow> (Thrown (ReferenceError (js ''options is not defined'')), s)
                | Some options \<Rightarrow>
                    (Returned Undefined,
                     s\<lparr>document := (document s)\<lparr>exerciseVideo := Some
                        \<lparr>video_src = (if truthy options
                                        then the options @ the (previewVideo exercise)
                                        else the (previewVideo exercise)),
                         playbackRate = animationSpeed s,
                         play_called = isPlaying s\<rparr>\<rparr>\<rparr>)))"

definition renderExerciseDetail :: "app_state \<Rightarrow> exercise \<Rightarrow> js_value completion \<times> app_state" where
  "renderExerciseDetail s exercise =
     (case exerciseDetailContent (document s) of
        None \<Rightarrow> (Returned Undefined, s)
      | Some _ \<Rightarrow>
          (case js_includes (bookmarkedExercises s) (exercise_id exercise) of
             Inl e \<Rightarrow> (Thrown e, s)
           | Inr isBookmarked \<Rightarrow>
               (case detail_markup s exercise isBookmarked of
                  Inl e \<Rightarrow> (Thrown e, s)
                | Inr markup \<Rightarrow> setup_video exercise (set_exerciseDetailContent markup exercise s))))"

subsection \<open>Opening an exercise, toggling a bookmark\<close>

text \<open>
  \<^verbatim>\<open>viewExercise\<close>. The call of \<^verbatim>\<open>exercises.find\<close> throws a TypeError when the
  catalog is not an array, and \<^verbatim>\<open>document.getElementById(...).classList\<close> throws one
  on a page without the element. The scroll to the top is not part of the state.
\<close>

definition viewExercise :: "app_state \<Rightarrow> jsstring \<Rightarrow> js_value completion \<times> app_state" where
  "viewExercise s exerciseId =
     (case exercises s of
        NotArray _ \<Rightarrow> (Thrown TypeError, s)
      | Records records \<Rightarrow>
          (case find_by_id records exerciseId of
             None \<Rightarrow> (Returned Undefined, showError (js ''Exercise not found'') s)
           | Some exercise \<Rightarrow>
               let s1 = s\<lparr>currentExercise := Some exercise\<rparr>;
                   s2 = s1\<lparr>history := history s1 @ [(exerciseId, js ''?exercise='' @ exerciseId)]\<rparr>
               in (case gallery (document s2) of
                     None \<Rightarrow> (Thrown TypeError, s2)
                   | Some _ \<Rightarrow>
                       let s3 = s2\<lparr>document := (document s2)\<lparr>gallery := Some True\<rparr>\<rparr>
                       in (case exerciseDetail (document s3) of
                             None \<Rightarrow> (Thrown TypeError, s3)
                           | Some _ \<Rightarrow>
                               let s4 = s3\<lparr>document :=
                                          (document s3)\<lparr>exerciseDetail := Some False\<rparr>\<rparr>
                               in (case renderExerciseDetail s4 exercise of
                                     (Thrown e, s5) \<Rightarrow> (Thrown e, s5)
                                   | (Returned _, s5) \<Rightarrow>
                                       (Returned Undefined,
                                        announceToScreenReader
                                          (js ''Viewing '' @ exercise_name exercise @ js '' exercise'')
                                          s5))))))"

text \<open>
  \<^verbatim>\<open>toggleBookmark\<close>. On an array, \<^verbatim>\<open>indexOf\<close> finds the first element that is
  the identifier; \<^verbatim>\<open>splice(index, 1)\<close> removes it, \<^verbatim>\<open>push\<close> appends. On a string,
  \<^verbatim>\<open>indexOf\<close> returns, and the call of \<^verbatim>\<open>splice\<close> or of \<^verbatim>\<open>push\<close> that follows
  throws; on any other value \<^verbatim>\<open>indexOf\<close> itself throws: nothing has changed then.
  After the bookmarks are saved, \<^verbatim>\<open>exercises.find\<close> throws when the catalog is not an
  array. The function has no \<^verbatim>\<open>return\<close> statement.
\<close>

definition toggleBookmark :: "app_state \<Rightarrow> jsstring \<Rightarrow> js_value completion \<times> app_state" where
  "toggleBookmark s exerciseId =
     (case bookmarkedExercises s of
        JArr bs \<Rightarrow>
          let s1 = (case array_indexOf bs (JStr exerciseId) of
                      Some index \<Rightarrow>
                        announceToScreenReader (js ''Exercise removed from bookmarks'')
                          (s\<lparr>bookmarkedExercises := JArr (splice1 bs index)\<rparr>)
                    | None \<Rightarrow>
                        announceToScreenReader (js ''Exercise added to bookmarks'')
                          (s\<lparr>bookmarkedExercises := JArr (bs @ [JStr exerciseId])\<rparr>));
              s2 = saveBookmarks s1
          in (case exercises s2 of
                NotArray _ \<Rightarrow> (Thrown TypeError, s2)
              | Records records \<Rightarrow>
                  (case find_by_id records exerciseId of
                     None \<Rightarrow> (Returned Undefined, s2)
                   | Some exercise \<Rightarrow>
                       if (case currentExercise s2 of
                             None \<Rightarrow> False
                           | Some current \<Rightarrow> exercise_id current = exerciseId)
                       then renderExerciseDetail s2 exercise
                       else renderExerciseGallery s2))
      | _ \<Rightarrow> (Thrown TypeError, s))"

text \<open>
  Two of the functions that change a flag. The class and the label of their buttons,
  which they also set, are not part of the page above.
\<close>

definition toggleSlowMotion :: "app_state \<Rightarrow> app_state" where
  "toggleSlowMotion s =
     (let s1 = s\<lparr>animationSpeed := (if animationSpeed s = 1 then 1 / 2 else 1)\<rparr>;
          s2 = (case exerciseVideo (document s1) of
                  None \<Rightarrow> s1
                | Some v \<Rightarrow> s1\<lparr>document := (document s1)
                    \<lparr>exerciseVideo := Some (v\<lparr>playbackRate := animationSpeed s1\<rparr>)\<rparr>\<rparr>)
      in announceToScreenReader
           (js ''Slow motion '' @ (if animationSpeed s2 = 1 / 2 then js ''enabled'' else js ''disabled''))
           s2)"

definition toggleMuscleHighlight :: "app_state \<Rightarrow> app_state" where
  "toggleMuscleHighlight s =
     (let s1 = s\<lparr>showMuscleHighlight := \<not> showMuscleHighlight s\<rparr>
      in announceToScreenReader
           (js ''Muscle highlight '' @ (if showMuscleHighlight s1 then js ''enabled'' else js ''disabled''))
           s1)"

subsection \<open>Loading the catalog\<close>

text \<open>
  \<^verbatim>\<open>loadExercises\<close>. The argument is how the \<^verbatim>\<open>fetch\<close> of
  \<^verbatim>\<open>data/exercises.json\<close> settles: it rejects, or resolves to a response with a status
  and a body, whose reading as JSON rejects (the body is not JSON) or resolves to the
  value that the body denotes, a collection of records or not. Each of the three
  failures ends in the one \<^verbatim>\<open>catch\<close> block; a value that is resolved to is assigned
  as it is.
\<close>

record response =
  ok :: bool
  json_body :: "catalog promise"

definition load_failed :: "app_state \<Rightarrow> app_state" where
  "load_failed s =
     showError (js ''Failed to load exercises. Please refresh the page, or open the site from a local server (e.g. live server).'')
       (console_error (js ''Error loading exercises:'') s)"

definition loadExercises :: "response promise \<Rightarrow> app_state \<Rightarrow> js_value completion \<times> app_state" where
  "loadExercises fetched s =
     (case fetched of
        Rejected error \<Rightarrow> (Returned Undefined, load_failed s)
      | Resolved response \<Rightarrow>
          if \<not> ok response then (Returned Undefined, load_failed s)
          else (case json_body response of
                  Rejected error \<Rightarrow> (Returned Undefined, load_failed s)
                | Resolved body \<Rightarrow> (Returned Undefined, s\<lparr>exercises := body\<rparr>)))"

text \<open>The state when the script has been read: the initial values of its variables.\<close>

definition initial_state :: "page \<Rightarrow> jsstring option \<Rightarrow> app_state" where
  "initial_state p stored =
     \<lparr>exercises = Records [], bookmarkedExercises = JArr [], currentExercise = None,
      animationSpeed = 1, isPlaying = False, showMuscleHighlight = False,
      localStorage = stored, document = p, window_backMarkup = None, window_options = None,
      history = [], alerts = [], announcements = [], console = []\<rparr>"

subsection \<open>The remote collaborator\<close>

text \<open>
  The Supabase client is outside the repository. It is modelled by what its calls
  answer: each awaited call either resolves to a response with a \<^verbatim>\<open>data\<close> and an
  \<^verbatim>\<open>error\<close> part, or rejects.
\<close>

record auth_user =
  user_id :: jsstring
  user_email :: "jsstring option"
  user_metadata_name :: "jsstring option"

record session_response =
  session_user :: "auth_user option"
  session_error :: "js_error option"

record user_response =
  data_user :: "auth_user option"
  user_error :: "js_error option"

record saved_row =
  row_user_id :: jsstring
  row_exercise_id :: jsstring

record insert_response =
  insert_data :: "saved_row option"
  insert_error :: "js_error option"

record supabase_client =
  auth_getSession :: "session_response promise"
  auth_getUser :: "user_response promise"
  insert_select_single :: "jsstring \<Rightarrow> saved_row \<Rightarrow> insert_response promise"

text \<open>
  \<^verbatim>\<open>getSupabase\<close>: null when the library is not loaded on the page; otherwise the
  client, created on the first call and kept in \<^verbatim>\<open>window._moveoSupabase\<close>.
\<close>

record window_supabase =
  supabase_createClient :: "supabase_client option"
  moveoSupabase :: "supabase_client option"

definition getSupabase :: "window_supabase \<Rightarrow> supabase_client option \<times> window_supabase" where
  "getSupabase w =
     (case supabase_createClient w of
        None \<Rightarrow> (None, w)
      | Some created \<Rightarrow>
          (case moveoSupabase w of
             None \<Rightarrow> (Some created, w\<lparr>moveoSupabase := Some created\<rparr>)
           | Some client \<Rightarrow> (Some client, w)))"

record session_user_info =
  su_id :: jsstring
  su_email :: "jsstring option"
  su_name :: jsstring

text \<open>\<^verbatim>\<open>u.email?.split('@')[0]\<close>: the text before the first \<^verbatim>\<open>@\<close>.\<close>

definition email_local_part :: "jsstring option \<Rightarrow> jsstring option" where
  "email_local_part e = map_option (takeWhile (\<lambda>c. c \<noteq> 0x40)) e"

text \<open>\<^verbatim>\<open>a || b || 'User'\<close> on strings that may be missing: the first that is not falsy.\<close>

definition display_name :: "auth_user \<Rightarrow> jsstring" where
  "display_name u =
     (if truthy (user_metadata_name u) then the (user_metadata_name u)
      else if truthy (email_local_part (user_email u)) then the (email_local_part (user_email u))
      else js ''User'')"

definition getCurrentUser ::
  "window_supabase \<Rightarrow> session_user_info option completion \<times> window_supabase" where
  "getCurrentUser w =
     (case getSupabase w of
        (None, w') \<Rightarrow> (Returned None, w')
      | (Some supabase, w') \<Rightarrow>
          (case auth_getSession supabase of
             Rejected e \<Rightarrow> (Thrown e, w')
           | Resolved r \<Rightarrow>
               if session_error r \<noteq> None \<or> session_user r = None then (Returned None, w')
               else let u = the (session_user r)
                    in (Returned (Some \<lparr>su_id = user_id u, su_email = user_email u,
                                         su_name = display_name u\<rparr>), w')))"

subsection \<open>Saving an exercise for the logged-in user\<close>

record save_result =
  data :: "saved_row option"
  error :: "js_error option"

datatype remote_call = GetUser | Insert jsstring saved_row

text \<open>
  \<^verbatim>\<open>saveExercise(supabase, exerciseId)\<close>. A missing argument is \<open>None\<close>; the empty
  identifier is falsy too. The second component lists the calls made to the
  collaborator, in order.
\<close>

definition saveExercise ::
  "supabase_client option \<Rightarrow> jsstring option \<Rightarrow> save_result completion \<times> remote_call list" where
  "saveExercise supabase exerciseId =
     (case supabase of
        None \<Rightarrow>
          (Returned \<lparr>data = None, error = Some (Error (js ''Supabase client is required''))\<rparr>, [])
      | Some client \<Rightarrow>
          if \<not> truthy exerciseId then
            (Returned \<lparr>data = None, error = Some (Error (js ''Exercise id is required''))\<rparr>, [])
          else (case auth_getUser client of
                  Rejected e \<Rightarrow> (Thrown e, [GetUser])
                | Resolved r \<Rightarrow>
                    if user_error r \<noteq> None \<or> data_user r = None then
                      (Returned \<lparr>data = None,
                                 error = (case user_error r of
                                            Some sessionError \<Rightarrow> Some sessionError
                                          | None \<Rightarrow> Some (Error
                                              (js ''You must be logged in to save an exercise'')))\<rparr>,
                       [GetUser])
                    else
                      let row = \<lparr>row_user_id = user_id (the (data_user r)),
                                 row_exercise_id = the exerciseId\<rparr>;
                          calls = [GetUser, Insert (js ''user_saved_exercises'') row]
                      in (case insert_select_single client (js ''user_saved_exercises'') row of
                            Rejected e \<Rightarrow> (Thrown e, calls)
                          | Resolved i \<Rightarrow>
                              (case insert_error i of
                                 Some e \<Rightarrow> (Returned \<lparr>data = None, error = Some e\<rparr>, calls)
                               | None \<Rightarrow>
                                   (Returned \<lparr>data = insert_data i, error = None\<rparr>, calls)))))"

subsection \<open>Concrete instances\<close>

text \<open>
  The inputs of the concrete instances below: a catalog of three records that lack
  every optional field, a user, a collaborator that answers every call (with the given
  user and error) and one whose every call rejects, and a page that has all the
  elements.
\<close>

definition demo_exercise :: "string \<Rightarrow> exercise" where
  "demo_exercise i =
     \<lparr>exercise_id = js i, exercise_name = js ''Squat'', description = js ''Bend the knees.'',
      duration = 5, difficulty = js ''beginner'', category = js ''strength'',
      muscleGroups = [js ''quads''], tips = [js ''Keep the back straight''],
      commonMistakes = None, progression = None, rhythm = None, previewVideo = None\<rparr>"

definition demo_catalog :: "exercise list" where
  "demo_catalog = [demo_exercise ''a'', demo_exercise ''b'', demo_exercise ''c'']"

definition demo_user :: auth_user where
  "demo_user = \<lparr>user_id = js ''u1'', user_email = Some (js ''ada@example.org''),
                 user_metadata_name = None\<rparr>"

definition demo_client :: "auth_user option \<Rightarrow> js_error option \<Rightarrow> supabase_client" where
  "demo_client u e =
     \<lparr>auth_getSession = Resolved \<lparr>session_user = u, session_error = e\<rparr>,
      auth_getUser = Resolved \<lparr>data_user = u, user_error = e\<rparr>,
      insert_select_single = (\<lambda>table row. Resolved \<lparr>insert_data = Some row, insert_error = None\<rparr>)\<rparr>"

definition offline_client :: supabase_client where
  "offline_client =
     \<lparr>auth_getSession = Rejected (TypeError),
      auth_getUser = Rejected (TypeError),
      insert_select_single = (\<lambda>table row. Rejected (TypeError))\<rparr>"

definition demo_window :: "supabase_client \<Rightarrow> window_supabase" where
  "demo_window c = \<lparr>supabase_createClient = Some c, moveoSupabase = None\<rparr>"

definition demo_page :: page where
  "demo_page = \<lparr>gallery = Some False, exerciseDetail = Some True,
                 exerciseDetailContent = Some [], exercisesGrid = Some [],
                 tipsOverlay = None, exerciseVideo = None\<rparr>"

text \<open>The page after a successful load of the catalog, nothing opened or toggled yet.\<close>

definition demo_loaded :: app_state where
  "demo_loaded = (initial_state demo_page None)\<lparr>exercises := Records demo_catalog\<rparr>"

text \<open>Exercise \<open>a\<close> opened, then slow motion and the muscle highlight switched on.\<close>

definition demo_flagged :: app_state where
  "demo_flagged =
     toggleMuscleHighlight (toggleSlowMotion (snd (viewExercise demo_loaded (js ''a''))))"

text \<open>The tokens of a serialized array of identifiers, between its brackets.\<close>

fun id_tokens :: "jsstring list \<Rightarrow> token list" where
  "id_tokens [] = []"
| "id_tokens [x] = [TString x]"
| "id_tokens (x # y # ys) = TString x # TComma # id_tokens (y # ys)"

section \<open>Theorems\<close>

subsection \<open>Looking an exercise up\<close>

lemma array_find_None: "(array_find p xs = None) = (\<forall>x \<in> set xs. \<not> p x)"
  by (induction xs) auto

lemma array_find_Some: "array_find p xs = Some x \<Longrightarrow> x \<in> set xs \<and> p x"
  by (induction xs) (auto split: if_splits)

lemma find_by_id_unique:
  "distinct (map exercise_id exs) \<Longrightarrow> ex \<in> set exs \<Longrightarrow>
   find_by_id exs (exercise_id ex) = Some ex"
  unfolding find_by_id_def
proof (induction exs)
  case Nil
  then show ?case by simp
next
  case (Cons a exs)
  show ?case
  proof (cases "exercise_id a = exercise_id ex")
    case True
    with Cons.prems have "a = ex" by force
    then show ?thesis by simp
  next
    case False
    with Cons show ?thesis by auto
  qed
qed

text \<open>
  Claim C1. For every catalog and every identifier: when a record of the catalog has
  the identifier, the lookup returns a record of the catalog with that identifier (the
  record itself when identifiers are unique in the catalog, as the data model has it);
  when no record has it, the lookup returns undefined, the "not found" of the callers.
\<close>

theorem find_by_id_correct:
  "(i \<in> exercise_id ` set exs \<longrightarrow>
      (\<exists>ex. find_by_id exs i = Some ex \<and> ex \<in> set exs \<and> exercise_id ex = i)) \<and>
   (distinct (map exercise_id exs) \<longrightarrow>
      (\<forall>ex \<in> set exs. find_by_id exs (exercise_id ex) = Some ex)) \<and>
   (i \<notin> exercise_id ` set exs \<longrightarrow> find_by_id exs i = None)"
proof (intro conjI impI ballI)
  assume "i \<in> exercise_id ` set exs"
  then have "array_find (\<lambda>ex. exercise_id ex = i) exs \<noteq> None"
    by (auto simp: array_find_None)
  then obtain ex where "array_find (\<lambda>ex. exercise_id ex = i) exs = Some ex"
    by auto
  then show "\<exists>ex. find_by_id exs i = Some ex \<and> ex \<in> set exs \<and> exercise_id ex = i"
    using array_find_Some [of "\<lambda>ex. exercise_id ex = i" exs ex]
    by (simp add: find_by_id_def)
next
  fix ex
  assume "distinct (map exercise_id exs)" "ex \<in> set exs"
  then show "find_by_id exs (exercise_id ex) = Some ex"
    by (rule find_by_id_unique)
next
  assume "i \<notin> exercise_id ` set exs"
  then show "find_by_id exs i = None"
    by (auto simp: find_by_id_def array_find_None)
qed

theorem find_by_id_correct_witness:
  "js ''b'' \<in> exercise_id ` set demo_catalog \<and>
   find_by_id demo_catalog (js ''b'') = Some (demo_exercise ''b'') \<and>
   distinct (map exercise_id demo_catalog) \<and>
   js ''z'' \<notin> exercise_id ` set demo_catalog \<and>
   find_by_id demo_catalog (js ''z'') = None"
proof -
  have d: "distinct (map exercise_id demo_catalog)"
    by (simp add: demo_catalog_def demo_exercise_def js_def)
  have m: "demo_exercise ''b'' \<in> set demo_catalog"
    by (simp add: demo_catalog_def)
  have z: "js ''z'' \<notin> exercise_id ` set demo_catalog"
    by (simp add: demo_catalog_def demo_exercise_def js_def)
  have b: "js ''b'' \<in> exercise_id ` set demo_catalog"
    by (simp add: demo_catalog_def demo_exercise_def js_def)
  have i: "exercise_id (demo_exercise ''b'') = js ''b''"
    by (simp add: demo_exercise_def)
  from find_by_id_correct [of "js ''z''" demo_catalog] d m z
  have "find_by_id demo_catalog (exercise_id (demo_exercise ''b'')) = Some (demo_exercise ''b'')"
    and "find_by_id demo_catalog (js ''z'') = None"
    by blast+
  with d z b i show ?thesis by simp
qed

subsection \<open>The exercise of the day\<close>

text \<open>
  Claim C4. The selection is a function of the catalog and of the day of the month
  alone: null for the empty catalog, and otherwise the element at index day modulo
  the catalog's length, which is an element of the catalog.
\<close>

theorem getDailyExercise_correct:
  "(exs = [] \<longrightarrow> getDailyExercise exs day = None) \<and>
   (exs \<noteq> [] \<longrightarrow>
      getDailyExercise exs day = Some (exs ! (day mod length exs)) \<and>
      exs ! (day mod length exs) \<in> set exs)"
  by (simp add: getDailyExercise_def array_index_def)

theorem getDailyExercise_correct_witness:
  "demo_catalog \<noteq> [] \<and> getDailyExercise demo_catalog 31 = Some (demo_exercise ''b'') \<and>
   demo_exercise ''b'' \<in> set demo_catalog \<and> getDailyExercise [] 31 = None"
  using getDailyExercise_correct [of demo_catalog 31] getDailyExercise_correct [of "[]" 31]
  by (simp add: demo_catalog_def)

subsection \<open>Saving an exercise\<close>

text \<open>
  Claim C10. Without a client, without an identifier (or with the empty one), or when
  the session lookup answers with an error or with no user, the function returns a
  result with null data and an error, and no insert has been sent. When all three are
  there, the insert into \<^verbatim>\<open>user_saved_exercises\<close> is sent, with the user's id and
  the identifier; and an insert is only ever sent then.
\<close>

theorem saveExercise_guards:
  "saveExercise None eid =
     (Returned \<lparr>data = None, error = Some (Error (js ''Supabase client is required''))\<rparr>, []) \<and>
   (\<not> truthy eid \<longrightarrow>
      saveExercise (Some c) eid =
        (Returned \<lparr>data = None, error = Some (Error (js ''Exercise id is required''))\<rparr>, [])) \<and>
   (truthy eid \<and> auth_getUser c = Resolved r \<and> (user_error r \<noteq> None \<or> data_user r = None) \<longrightarrow>
      (\<exists>e. saveExercise (Some c) eid = (Returned \<lparr>data = None, error = Some e\<rparr>, [GetUser]))) \<and>
   (truthy eid \<and> auth_getUser c = Resolved r \<and> user_error r = None \<and> data_user r = Some u \<longrightarrow>
      snd (saveExercise (Some c) eid) =
        [GetUser, Insert (js ''user_saved_exercises'')
                    \<lparr>row_user_id = user_id u, row_exercise_id = the eid\<rparr>]) \<and>
   (Insert t row \<in> set (snd (saveExercise sb eid)) \<longrightarrow>
      (\<exists>c r u. sb = Some c \<and> truthy eid \<and> auth_getUser c = Resolved r \<and>
         user_error r = None \<and> data_user r = Some u \<and> t = js ''user_saved_exercises'' \<and>
         row = \<lparr>row_user_id = user_id u, row_exercise_id = the eid\<rparr>))"
proof (intro conjI impI)
  show "saveExercise None eid =
     (Returned \<lparr>data = None, error = Some (Error (js ''Supabase client is required''))\<rparr>, [])"
    by (simp add: saveExercise_def)
next
  assume "\<not> truthy eid"
  then show "saveExercise (Some c) eid =
        (Returned \<lparr>data = None, error = Some (Error (js ''Exercise id is required''))\<rparr>, [])"
    by (simp add: saveExercise_def)
next
  assume "truthy eid \<and> auth_getUser c = Resolved r \<and> (user_error r \<noteq> None \<or> data_user r = None)"
  then show "\<exists>e. saveExercise (Some c) eid = (Returned \<lparr>data = None, error = Some e\<rparr>, [GetUser])"
    by (auto simp: saveExercise_def split: option.splits)
next
  assume "truthy eid \<and> auth_getUser c = Resolved r \<and> user_error r = None \<and> data_user r = Some u"
  then show "snd (saveExercise (Some c) eid) =
        [GetUser, Insert (js ''user_saved_exercises'')
                    \<lparr>row_user_id = user_id u, row_exercise_id = the eid\<rparr>]"
    by (simp add: saveExercise_def Let_def split: promise.splits option.splits)
next
  assume a: "Insert t row \<in> set (snd (saveExercise sb eid))"
  show "\<exists>c r u. sb = Some c \<and> truthy eid \<and> auth_getUser c = Resolved r \<and>
         user_error r = None \<and> data_user r = Some u \<and> t = js ''user_saved_exercises'' \<and>
         row = \<lparr>row_user_id = user_id u, row_exercise_id = the eid\<rparr>"
  proof (cases sb)
    case None
    with a show ?thesis by (simp add: saveExercise_def)
  next
    case (Some c)
    show ?thesis
    proof (cases "truthy eid")
      case False
      with a Some show ?thesis by (simp add: saveExercise_def)
    next
      case True
      show ?thesis
      proof (cases "auth_getUser c")
        case (Rejected e)
        with a Some True show ?thesis by (simp add: saveExercise_def)
      next
        case (Resolved r)
        show ?thesis
        proof (cases "user_error r \<noteq> None \<or> data_user r = None")
          case True
          with a Some \<open>truthy eid\<close> Resolved show ?thesis
            by (auto simp: saveExercise_def)
        next
          case False
          then obtain u where u: "data_user r = Some u" and e: "user_error r = None" by auto
          with a Some \<open>truthy eid\<close> Resolved show ?thesis
            by (auto simp: saveExercise_def Let_def split: promise.splits option.splits)
        qed
      qed
    qed
  qed
qed

theorem saveExercise_guards_witness:
  "\<not> truthy (Some []) \<and>
   saveExercise (Some (demo_client (Some demo_user) None)) (Some []) =
     (Returned \<lparr>data = None, error = Some (Error (js ''Exercise id is required''))\<rparr>, []) \<and>
   truthy (Some (js ''bodyweight-squat'')) \<and>
   saveExercise (Some (demo_client None None)) (Some (js ''bodyweight-squat'')) =
     (Returned \<lparr>data = None,
                error = Some (Error (js ''You must be logged in to save an exercise''))\<rparr>, [GetUser]) \<and>
   snd (saveExercise (Some (demo_client (Some demo_user) None)) (Some (js ''bodyweight-squat''))) =
     [GetUser, Insert (js ''user_saved_exercises'')
        \<lparr>row_user_id = js ''u1'', row_exercise_id = js ''bodyweight-squat''\<rparr>]"
proof -
  have t: "truthy (Some (js ''bodyweight-squat''))" and f: "\<not> truthy (Some [])"
    by (simp_all add: truthy_def js_def)
  have g: "auth_getUser (demo_client None None) = Resolved \<lparr>data_user = None, user_error = None\<rparr>"
    by (simp add: demo_client_def)
  have h: "auth_getUser (demo_client (Some demo_user) None) =
             Resolved \<lparr>data_user = Some demo_user, user_error = None\<rparr>"
    by (simp add: demo_client_def)
  note c2 = saveExercise_guards [THEN conjunct2, THEN conjunct1, rule_format]
  note c3 = saveExercise_guards [THEN conjunct2, THEN conjunct2, THEN conjunct1, rule_format]
  note c4 = saveExercise_guards [THEN conjunct2, THEN conjunct2, THEN conjunct2, THEN conjunct1,
    rule_format]
  from c2 [OF f]
  have 1: "saveExercise (Some (demo_client (Some demo_user) None)) (Some []) =
     (Returned \<lparr>data = None, error = Some (Error (js ''Exercise id is required''))\<rparr>, [])" .
  from c4 [of "Some (js ''bodyweight-squat'')" "demo_client (Some demo_user) None"
              "\<lparr>data_user = Some demo_user, user_error = None\<rparr>" demo_user] t h
  have 2: "snd (saveExercise (Some (demo_client (Some demo_user) None)) (Some (js ''bodyweight-squat''))) =
     [GetUser, Insert (js ''user_saved_exercises'')
        \<lparr>row_user_id = user_id demo_user, row_exercise_id = the (Some (js ''bodyweight-squat''))\<rparr>]"
    by simp
  from c3 [of "Some (js ''bodyweight-squat'')" "demo_client None None"
              "\<lparr>data_user = None, user_error = None\<rparr>"] t g
  have 3: "\<exists>e. saveExercise (Some (demo_client None None)) (Some (js ''bodyweight-squat'')) =
     (Returned \<lparr>data = None, error = Some e\<rparr>, [GetUser])"
    by simp
  have 4: "saveExercise (Some (demo_client None None)) (Some (js ''bodyweight-squat'')) =
     (Returned \<lparr>data = None,
                error = Some (Error (js ''You must be logged in to save an exercise''))\<rparr>, [GetUser])"
    using t by (simp add: saveExercise_def demo_client_def)
  from 1 2 4 t f show ?thesis by (simp add: demo_user_def)
qed

subsection \<open>Loading the catalog\<close>

text \<open>
  Claim C6, as the script has it. When the fetch resolves with a success status and a
  body that is JSON, the catalog becomes the value of the body, whole and whatever it
  is, and nothing is shown: a body that is JSON but not a collection is not a failure.
  On every failure (the fetch rejects, the status is not a success, the body is not
  JSON) the call returns, one error message has been shown, and the catalog is what it
  was before the call: empty when the call is the first one of the page. Whatever the
  outcome, the catalog afterwards is the one before or the whole value of the body.
\<close>

theorem loadExercises_all_or_nothing:
  "(fetched = Resolved resp \<and> ok resp \<and> json_body resp = Resolved body \<longrightarrow>
      loadExercises fetched s = (Returned Undefined, s\<lparr>exercises := body\<rparr>)) \<and>
   ((\<exists>e. fetched = Rejected e) \<or>
    (\<exists>r. fetched = Resolved r \<and> (\<not> ok r \<or> (\<exists>e. json_body r = Rejected e))) \<longrightarrow>
      fst (loadExercises fetched s) = Returned Undefined \<and>
      exercises (snd (loadExercises fetched s)) = exercises s \<and>
      exercises (snd (loadExercises fetched (initial_state p stored))) = Records [] \<and>
      alerts (snd (loadExercises fetched s)) =
        alerts s @ [js ''Failed to load exercises. Please refresh the page, or open the site from a local server (e.g. live server).'']) \<and>
   (exercises (snd (loadExercises fetched s)) = exercises s \<or>
    (\<exists>r. fetched = Resolved r \<and> json_body r = Resolved (exercises (snd (loadExercises fetched s)))))"
proof (intro conjI impI)
  assume "fetched = Resolved resp \<and> ok resp \<and> json_body resp = Resolved body"
  then show "loadExercises fetched s = (Returned Undefined, s\<lparr>exercises := body\<rparr>)"
    by (simp add: loadExercises_def)
next
  assume f: "(\<exists>e. fetched = Rejected e) \<or>
    (\<exists>r. fetched = Resolved r \<and> (\<not> ok r \<or> (\<exists>e. json_body r = Rejected e)))"
  then have l: "loadExercises fetched s' = (Returned Undefined, load_failed s')" for s'
    by (auto simp: loadExercises_def)
  show "fst (loadExercises fetched s) = Returned Undefined"
    by (simp add: l)
  show "exercises (snd (loadExercises fetched s)) = exercises s"
    by (simp add: l load_failed_def showError_def console_error_def)
  show "exercises (snd (loadExercises fetched (initial_state p stored))) = Records []"
    by (simp add: l load_failed_def showError_def console_error_def initial_state_def)
  show "alerts (snd (loadExercises fetched s)) =
        alerts s @ [js ''Failed to load exercises. Please refresh the page, or open the site from a local server (e.g. live server).'']"
    by (simp add: l load_failed_def showError_def console_error_def)
next
  show "exercises (snd (loadExercises fetched s)) = exercises s \<or>
    (\<exists>r. fetched = Resolved r \<and> json_body r = Resolved (exercises (snd (loadExercises fetched s))))"
    by (cases fetched)
      (auto simp: loadExercises_def load_failed_def showError_def console_error_def
            split: promise.splits)
qed

theorem loadExercises_all_or_nothing_witness:
  "loadExercises (Resolved \<lparr>ok = True, json_body = Resolved (Records demo_catalog)\<rparr>)
     (initial_state demo_page None) =
     (Returned Undefined, (initial_state demo_page None)\<lparr>exercises := Records demo_catalog\<rparr>) \<and>
   fst (loadExercises (Resolved \<lparr>ok = False, json_body = Resolved (Records demo_catalog)\<rparr>)
          (initial_state demo_page None)) = Returned Undefined \<and>
   exercises (snd (loadExercises (Resolved \<lparr>ok = False, json_body = Resolved (Records demo_catalog)\<rparr>)
          (initial_state demo_page None))) = Records [] \<and>
   length (alerts (snd (loadExercises (Resolved \<lparr>ok = False, json_body = Resolved (Records demo_catalog)\<rparr>)
          (initial_state demo_page None)))) = 1"
proof -
  note c1 = loadExercises_all_or_nothing [THEN conjunct1, rule_format]
  note c2 = loadExercises_all_or_nothing [THEN conjunct2, THEN conjunct1, rule_format]
  have a: "alerts (initial_state demo_page None) = []"
    and e: "exercises (initial_state demo_page None) = Records []"
    by (simp_all add: initial_state_def)
  have 1: "loadExercises (Resolved \<lparr>ok = True, json_body = Resolved (Records demo_catalog)\<rparr>)
     (initial_state demo_page None) =
     (Returned Undefined, (initial_state demo_page None)\<lparr>exercises := Records demo_catalog\<rparr>)"
    using c1 [of "Resolved \<lparr>ok = True, json_body = Resolved (Records demo_catalog)\<rparr>"
                 "\<lparr>ok = True, json_body = Resolved (Records demo_catalog)\<rparr>" "Records demo_catalog"]
    by simp
  have f: "(\<exists>e. Resolved \<lparr>ok = False, json_body = Resolved (Records demo_catalog)\<rparr> = Rejected e) \<or>
    (\<exists>r. Resolved \<lparr>ok = False, json_body = Resolved (Records demo_catalog)\<rparr> = Resolved r \<and>
         (\<not> ok r \<or> (\<exists>e. json_body r = Rejected e)))"
    by simp
  from c2 [OF f, of "initial_state demo_page None" demo_page None] a e 1 show ?thesis
    by simp
qed

text \<open>
  The claim as the specification states it fails twice. A response with a success
  status whose body is \<^verbatim>\<open>null\<close>, which is JSON and not a collection, is stored as
  the catalog and no error is shown. And a failed load on a catalog that is loaded
  leaves the three records there, not an empty catalog.
\<close>

theorem loadExercises_not_emptied:
  "loadExercises (Resolved \<lparr>ok = True, json_body = Resolved (NotArray NullValue)\<rparr>)
     (initial_state demo_page None) =
     (Returned Undefined, (initial_state demo_page None)\<lparr>exercises := NotArray NullValue\<rparr>) \<and>
   alerts ((initial_state demo_page None)\<lparr>exercises := NotArray NullValue\<rparr>) = [] \<and>
   exercises (snd (loadExercises (Rejected TypeError) demo_loaded)) = Records demo_catalog"
  by (simp add: loadExercises_def initial_state_def demo_loaded_def load_failed_def
      showError_def console_error_def)

subsection \<open>The current user\<close>

text \<open>
  Claim C7, as the script has it. \<^verbatim>\<open>getCurrentUser\<close> has no handler around the call
  of the collaborator. When the library is not on the page it returns null. When the
  session lookup resolves, it returns: null when the response has an error or no
  session user, and otherwise the user's id and email with a display name, which is
  the name of the profile metadata, else the email's local part, else \<^verbatim>\<open>User\<close>. When
  the lookup rejects, so does \<^verbatim>\<open>getCurrentUser\<close>, with the same error.
\<close>

theorem getCurrentUser_resolved:
  "(supabase_createClient w = None \<longrightarrow> fst (getCurrentUser w) = Returned None) \<and>
   (fst (getSupabase w) = Some c \<and> auth_getSession c = Resolved r \<longrightarrow>
      fst (getCurrentUser w) =
        Returned (if session_error r \<noteq> None then None
                  else map_option (\<lambda>u. \<lparr>su_id = user_id u, su_email = user_email u,
                                          su_name = display_name u\<rparr>) (session_user r))) \<and>
   (fst (getSupabase w) = Some c \<and> auth_getSession c = Rejected e \<longrightarrow>
      fst (getCurrentUser w) = Thrown e)"
proof (intro conjI impI)
  assume "supabase_createClient w = None"
  then show "fst (getCurrentUser w) = Returned None"
    by (simp add: getCurrentUser_def getSupabase_def)
next
  assume "fst (getSupabase w) = Some c \<and> auth_getSession c = Resolved r"
  then show "fst (getCurrentUser w) =
        Returned (if session_error r \<noteq> None then None
                  else map_option (\<lambda>u. \<lparr>su_id = user_id u, su_email = user_email u,
                                          su_name = display_name u\<rparr>) (session_user r))"
    by (cases "getSupabase w"; cases "session_user r") (auto simp: getCurrentUser_def)
next
  assume "fst (getSupabase w) = Some c \<and> auth_getSession c = Rejected e"
  then show "fst (getCurrentUser w) = Thrown e"
    by (cases "getSupabase w") (auto simp: getCurrentUser_def)
qed

theorem getCurrentUser_resolved_witness:
  "fst (getSupabase (demo_window (demo_client (Some demo_user) None))) =
     Some (demo_client (Some demo_user) None) \<and>
   fst (getCurrentUser (demo_window (demo_client (Some demo_user) None))) =
     Returned (Some \<lparr>su_id = js ''u1'', su_email = Some (js ''ada@example.org''),
                      su_name = js ''ada''\<rparr>) \<and>
   fst (getCurrentUser (demo_window (demo_client None (Some (Error (js ''expired'')))))) =
     Returned None \<and>
   supabase_createClient \<lparr>supabase_createClient = None, moveoSupabase = None\<rparr> = None \<and>
   fst (getCurrentUser \<lparr>supabase_createClient = None, moveoSupabase = None\<rparr>) = Returned None \<and>
   fst (getCurrentUser (demo_window offline_client)) = Thrown TypeError"
proof -
  note c1 = getCurrentUser_resolved [THEN conjunct1, rule_format]
  note c2 = getCurrentUser_resolved [THEN conjunct2, THEN conjunct1, rule_format]
  note c3 = getCurrentUser_resolved [THEN conjunct2, THEN conjunct2, rule_format]
  have g: "fst (getSupabase (demo_window c)) = Some c" for c
    by (simp add: getSupabase_def demo_window_def)
  have n: "display_name demo_user = js ''ada''"
    by (simp add: display_name_def demo_user_def truthy_def email_local_part_def js_def)
  have 1: "fst (getCurrentUser (demo_window (demo_client (Some demo_user) None))) =
     Returned (Some \<lparr>su_id = js ''u1'', su_email = Some (js ''ada@example.org''),
                      su_name = js ''ada''\<rparr>)"
    using c2 [of "demo_window (demo_client (Some demo_user) None)"
                 "demo_client (Some demo_user) None"
                 "\<lparr>session_user = Some demo_user, session_error = None\<rparr>"] g n
    by (simp add: demo_client_def demo_user_def)
  have 2: "fst (getCurrentUser (demo_window (demo_client None (Some (Error (js ''expired'')))))) =
     Returned None"
    using c2 [of "demo_window (demo_client None (Some (Error (js ''expired''))))"
                 "demo_client None (Some (Error (js ''expired'')))"
                 "\<lparr>session_user = None, session_error = Some (Error (js ''expired''))\<rparr>"] g
    by (simp add: demo_client_def)
  have 3: "fst (getCurrentUser \<lparr>supabase_createClient = None, moveoSupabase = None\<rparr>) = Returned None"
    by (rule c1) simp
  have 4: "fst (getCurrentUser (demo_window offline_client)) = Thrown TypeError"
    using c3 [of "demo_window offline_client" offline_client TypeError] g
    by (simp add: offline_client_def)
  from 1 2 3 4 g show ?thesis by simp
qed

text \<open>
  The claim as the specification states it, that the lookup never throws whatever the
  collaborator does, fails when the session lookup rejects: the rejection is not
  caught.
\<close>

theorem getCurrentUser_throws:
  "fst (getCurrentUser (demo_window offline_client)) = Thrown TypeError"
  by (simp add: getCurrentUser_def getSupabase_def demo_window_def offline_client_def)

subsection \<open>Rendering changes the page only\<close>

lemma same_document: "\<exists>d. s = s\<lparr>document := d\<rparr>"
  by (rule exI [of _ "document s"]) simp

lemma setup_video_document: "\<exists>d. snd (setup_video ex s) = s\<lparr>document := d\<rparr>"
proof (cases "exerciseVideo (document s)")
  case None
  then have "snd (setup_video ex s) = s\<lparr>document := document s\<rparr>"
    by (simp add: setup_video_def)
  then show ?thesis ..
next
  case (Some v)
  show ?thesis
  proof (cases "truthy (previewVideo ex) \<and> window_options s \<noteq> None")
    case True
    with Some show ?thesis by (auto simp: setup_video_def)
  next
    case False
    with Some have "snd (setup_video ex s) = s\<lparr>document := document s\<rparr>"
      by (auto simp: setup_video_def)
    then show ?thesis ..
  qed
qed

lemma renderExerciseDetail_document: "\<exists>d. snd (renderExerciseDetail s ex) = s\<lparr>document := d\<rparr>"
proof (cases "renderExerciseDetail s ex = (fst (renderExerciseDetail s ex), s)")
  case True
  then have "snd (renderExerciseDetail s ex) = s\<lparr>document := document s\<rparr>"
    by (metis snd_conv app_state.surjective app_state.update_convs(8))
  then show ?thesis ..
next
  case False
  then obtain m where
    r: "renderExerciseDetail s ex = setup_video ex (set_exerciseDetailContent m ex s)"
    by (auto simp: renderExerciseDetail_def split: option.splits sum.splits)
  obtain d where "snd (setup_video ex (set_exerciseDetailContent m ex s)) =
      (set_exerciseDetailContent m ex s)\<lparr>document := d\<rparr>"
    using setup_video_document by blast
  with r have "snd (renderExerciseDetail s ex) = s\<lparr>document := d\<rparr>"
    by (simp add: set_exerciseDetailContent_def)
  then show ?thesis ..
qed

lemma renderExerciseGallery_document: "\<exists>d. snd (renderExerciseGallery s) = s\<lparr>document := d\<rparr>"
proof -
  have "snd (renderExerciseGallery s) = s\<lparr>document := document s\<rparr> \<or>
        (\<exists>m. snd (renderExerciseGallery s) = set_exercisesGrid m s)"
    by (auto simp: renderExerciseGallery_def
          split: option.splits sum.splits catalog.splits non_array.splits)
  then show ?thesis
    using same_document [of s] by (auto simp: set_exercisesGrid_def)
qed

lemma detail_markup_undeclared:
  "window_backMarkup s = None \<Longrightarrow>
   detail_markup s ex b = Inl (ReferenceError (js ''backMarkup is not defined''))"
  by (simp add: detail_markup_def)

lemma renderExerciseDetail_undeclared:
  "exerciseDetailContent (document s) = Some m \<Longrightarrow> window_backMarkup s = None \<Longrightarrow>
   js_includes (bookmarkedExercises s) (exercise_id ex) = Inr b \<Longrightarrow>
   renderExerciseDetail s ex = (Thrown (ReferenceError (js ''backMarkup is not defined'')), s)"
  by (simp add: renderExerciseDetail_def detail_markup_undeclared)

lemma sections_omitted:
  \<open>commonMistakes ex = None \<Longrightarrow> progression ex = None \<Longrightarrow> rhythm ex = None \<Longrightarrow>
   commonMistakes_section ex = [] \<and> progression_section ex = [] \<and> rhythm_section ex = [] \<and>
   tips_overlay ex =
     js ''<div id="tipsOverlay" class="tips-overlay hidden" role="region" aria-labelledby="tipsHeading"><h3 id="tipsHeading">Form Tips</h3><ul class="tips-list">'' @
     list_items (js ''<li>'') (tips ex) @ js ''</ul>'' @ js ''</div>''\<close>
  by (simp add: commonMistakes_section_def progression_section_def rhythm_section_def
      tips_overlay_def truthy_def)

lemma renderExerciseDetail_defined:
  "exerciseDetailContent (document s) = Some m \<Longrightarrow> window_backMarkup s = Some back \<Longrightarrow>
   js_includes (bookmarkedExercises s) (exercise_id ex) = Inr b \<Longrightarrow>
   previewVideo ex = None \<Longrightarrow>
   \<exists>body. detail_markup s ex b = Inr (body @ back) \<and>
     renderExerciseDetail s ex =
       (Returned Undefined, set_exerciseDetailContent (body @ back) ex s)"
  by (simp add: renderExerciseDetail_def detail_markup_def Let_def setup_video_def
      set_exerciseDetailContent_def truthy_def)

subsection \<open>The detail view\<close>

text \<open>
  Claim C8 says that rendering a record without the optional fields completes without
  error and leaves the three optional sections out. The three sections are indeed
  empty for such a record (\<open>sections_omitted\<close>), and the rendering completes when
  something outside the script defines \<^verbatim>\<open>backMarkup\<close>
  (\<open>renderExerciseDetail_defined\<close>). The script itself never declares it: on a page
  that has the container, the template throws a ReferenceError before the markup is
  assigned, for this record as for every other.
\<close>

theorem renderExerciseDetail_throws:
  "commonMistakes (demo_exercise ''a'') = None \<and> progression (demo_exercise ''a'') = None \<and>
   rhythm (demo_exercise ''a'') = None \<and> previewVideo (demo_exercise ''a'') = None \<and>
   renderExerciseDetail demo_loaded (demo_exercise ''a'') =
     (Thrown (ReferenceError (js ''backMarkup is not defined'')), demo_loaded)"
proof -
  have "renderExerciseDetail demo_loaded (demo_exercise ''a'') =
     (Thrown (ReferenceError (js ''backMarkup is not defined'')), demo_loaded)"
    by (rule renderExerciseDetail_undeclared [of _ "[]" _ False])
       (simp_all add: demo_loaded_def initial_state_def demo_page_def js_includes_def)
  then show ?thesis
    by (simp add: demo_exercise_def)
qed

subsection \<open>Opening another exercise\<close>

lemma viewExercise_document_etc:
  "\<exists>d h a n c. snd (viewExercise s i) =
     s\<lparr>document := d, history := h, alerts := a, announcements := n, currentExercise := c\<rparr>"
proof (cases "exercises s")
  case (NotArray v)
  then have "snd (viewExercise s i) =
     s\<lparr>document := document s, history := history s, alerts := alerts s,
       announcements := announcements s, currentExercise := currentExercise s\<rparr>"
    by (simp add: viewExercise_def)
  then show ?thesis by blast
next
  case (Records exs)
  show ?thesis
  proof (cases "find_by_id exs i")
    case None
    with Records have "snd (viewExercise s i) =
       s\<lparr>document := document s, history := history s, alerts := alerts s @ [js ''Exercise not found''],
         announcements := announcements s, currentExercise := currentExercise s\<rparr>"
      by (simp add: viewExercise_def showError_def)
    then show ?thesis by blast
  next
    case (Some ex)
    show ?thesis
    proof (cases "gallery (document s)")
      case None
      with Records Some have "snd (viewExercise s i) =
         s\<lparr>document := document s, history := history s @ [(i, js ''?exercise='' @ i)],
           alerts := alerts s, announcements := announcements s, currentExercise := Some ex\<rparr>"
        by (simp add: viewExercise_def Let_def)
      then show ?thesis by blast
    next
      case g: (Some g)
      show ?thesis
      proof (cases "exerciseDetail (document s)")
        case None
        with Records Some g have "snd (viewExercise s i) =
           s\<lparr>document := (document s)\<lparr>gallery := Some True\<rparr>,
             history := history s @ [(i, js ''?exercise='' @ i)],
             alerts := alerts s, announcements := announcements s, currentExercise := Some ex\<rparr>"
          by (simp add: viewExercise_def Let_def)
        then show ?thesis by blast
      next
        case e: (Some e)
        let ?s4 = "s\<lparr>currentExercise := Some ex, history := history s @ [(i, js ''?exercise='' @ i)],
                     document := (document s)\<lparr>gallery := Some True, exerciseDetail := Some False\<rparr>\<rparr>"
        obtain d where d: "snd (renderExerciseDetail ?s4 ex) = ?s4\<lparr>document := d\<rparr>"
          using renderExerciseDetail_document by blast
        obtain r s5 where r: "renderExerciseDetail ?s4 ex = (r, s5)"
          by (cases "renderExerciseDetail ?s4 ex")
        with d have s5: "s5 = ?s4\<lparr>document := d\<rparr>" by simp
        have "snd (viewExercise s i) =
           s\<lparr>document := d, history := history s @ [(i, js ''?exercise='' @ i)],
             alerts := alerts s,
             announcements := (case r of Thrown _ \<Rightarrow> announcements s
                | Returned _ \<Rightarrow> announcements s @ [js ''Viewing '' @ exercise_name ex @ js '' exercise'']),
             currentExercise := Some ex\<rparr>"
          using Records Some g e r s5
          by (cases r) (simp_all add: viewExercise_def Let_def announceToScreenReader_def)
        then show ?thesis by blast
      qed
    qed
  qed
qed

lemma viewExercise_flags:
  "isPlaying (snd (viewExercise s i)) = isPlaying s \<and>
   animationSpeed (snd (viewExercise s i)) = animationSpeed s \<and>
   showMuscleHighlight (snd (viewExercise s i)) = showMuscleHighlight s \<and>
   exercises (snd (viewExercise s i)) = exercises s"
proof -
  obtain d h a n c where "snd (viewExercise s i) =
     s\<lparr>document := d, history := h, alerts := a, announcements := n, currentExercise := c\<rparr>"
    using viewExercise_document_etc by blast
  then show ?thesis by simp
qed

lemma viewExercise_current:
  assumes "exercises s = Records exs" and "find_by_id exs i = Some ex"
  shows "currentExercise (snd (viewExercise s i)) = Some ex"
proof -
  let ?s2 = "s\<lparr>currentExercise := Some ex, history := history s @ [(i, js ''?exercise='' @ i)]\<rparr>"
  let ?s4 = "?s2\<lparr>document := (document s)\<lparr>gallery := Some True, exerciseDetail := Some False\<rparr>\<rparr>"
  obtain d where d: "snd (renderExerciseDetail ?s4 ex) = ?s4\<lparr>document := d\<rparr>"
    using renderExerciseDetail_document by blast
  obtain r s5 where r: "renderExerciseDetail ?s4 ex = (r, s5)"
    by (cases "renderExerciseDetail ?s4 ex")
  with d have s5: "currentExercise s5 = Some ex" by simp
  show ?thesis
    using assms r s5
    by (cases r)
       (auto simp: viewExercise_def Let_def announceToScreenReader_def split: option.splits)
qed

lemma setup_video_tipsOverlay:
  "tipsOverlay (document (snd (setup_video ex s))) = tipsOverlay (document s)"
  by (auto simp: setup_video_def split: option.splits)

lemma renderExerciseDetail_collapses:
  assumes "renderExerciseDetail s ex = (Returned v, s')"
    and "exerciseDetailContent (document s) \<noteq> None"
  shows "tipsOverlay (document s') = Some True"
proof -
  from assms obtain m where
    "setup_video ex (set_exerciseDetailContent m ex s) = (Returned v, s')"
    by (auto simp: renderExerciseDetail_def split: option.splits sum.splits)
  then have "s' = snd (setup_video ex (set_exerciseDetailContent m ex s))"
    by simp
  then show ?thesis
    by (simp add: setup_video_tipsOverlay set_exerciseDetailContent_def)
qed

lemma viewExercise_collapses:
  assumes "exercises s = Records exs" and "find_by_id exs i = Some ex"
    and "exerciseDetailContent (document s) \<noteq> None"
    and "fst (viewExercise s i) = Returned Undefined"
  shows "tipsOverlay (document (snd (viewExercise s i))) = Some True"
proof -
  let ?s2 = "s\<lparr>currentExercise := Some ex, history := history s @ [(i, js ''?exercise='' @ i)]\<rparr>"
  let ?s4 = "?s2\<lparr>document := (document s)\<lparr>gallery := Some True, exerciseDetail := Some False\<rparr>\<rparr>"
  obtain r s5 where r: "renderExerciseDetail ?s4 ex = (r, s5)"
    by (cases "renderExerciseDetail ?s4 ex")
  from assms(1,2,4) obtain g e where g: "gallery (document s) = Some g"
    and e: "exerciseDetail (document s) = Some e"
    by (auto simp: viewExercise_def Let_def split: option.splits)
  from assms(1,2,4) g e r obtain v where v: "r = Returned v"
    by (cases r) (auto simp: viewExercise_def Let_def)
  have "exerciseDetailContent (document ?s4) \<noteq> None"
    using assms(3) by simp
  with r v have "tipsOverlay (document s5) = Some True"
    using renderExerciseDetail_collapses by blast
  with assms(1,2) g e r v show ?thesis
    by (simp add: viewExercise_def Let_def announceToScreenReader_def)
qed

text \<open>
  Claim C9, as the script has it. \<^verbatim>\<open>viewExercise\<close> assigns none of
  \<^verbatim>\<open>isPlaying\<close>, \<^verbatim>\<open>animationSpeed\<close> and \<^verbatim>\<open>showMuscleHighlight\<close>: they keep the
  values they had for the exercise shown before. It makes the exercise found the
  current one, and when the call returns on a page that has the container, the detail
  view has been built anew, with its tips overlay hidden.
\<close>

theorem viewExercise_keeps_flags:
  "isPlaying (snd (viewExercise s i)) = isPlaying s \<and>
   animationSpeed (snd (viewExercise s i)) = animationSpeed s \<and>
   showMuscleHighlight (snd (viewExercise s i)) = showMuscleHighlight s \<and>
   (exercises s = Records exs \<and> find_by_id exs i = Some ex \<longrightarrow>
      currentExercise (snd (viewExercise s i)) = Some ex) \<and>
   (exercises s = Records exs \<and> find_by_id exs i = Some ex \<and>
    exerciseDetailContent (document s) \<noteq> None \<and>
    fst (viewExercise s i) = Returned Undefined \<longrightarrow>
      tipsOverlay (document (snd (viewExercise s i))) = Some True)"
  using viewExercise_flags [of s i] viewExercise_current [of s exs i ex]
    viewExercise_collapses [of s exs i ex]
  by simp

lemma find_demo:
  "find_by_id demo_catalog (js ''a'') = Some (demo_exercise ''a'')"
  "find_by_id demo_catalog (js ''b'') = Some (demo_exercise ''b'')"
  by (simp_all add: find_by_id_def demo_catalog_def demo_exercise_def js_def)

theorem viewExercise_keeps_flags_witness:
  "exercises (demo_loaded\<lparr>window_backMarkup := Some []\<rparr>) = Records demo_catalog \<and>
   find_by_id demo_catalog (js ''b'') = Some (demo_exercise ''b'') \<and>
   exerciseDetailContent (document (demo_loaded\<lparr>window_backMarkup := Some []\<rparr>)) \<noteq> None \<and>
   fst (viewExercise (demo_loaded\<lparr>window_backMarkup := Some []\<rparr>) (js ''b'')) =
     Returned Undefined \<and>
   currentExercise (snd (viewExercise (demo_loaded\<lparr>window_backMarkup := Some []\<rparr>) (js ''b''))) =
     Some (demo_exercise ''b'') \<and>
   tipsOverlay (document (snd (viewExercise (demo_loaded\<lparr>window_backMarkup := Some []\<rparr>) (js ''b'')))) =
     Some True \<and>
   \<not> isPlaying (snd (viewExercise (demo_loaded\<lparr>window_backMarkup := Some []\<rparr>) (js ''b'')))"
proof -
  let ?s = "demo_loaded\<lparr>window_backMarkup := Some []\<rparr>"
  let ?s4 = "?s\<lparr>currentExercise := Some (demo_exercise ''b''),
                history := history ?s @ [(js ''b'', js ''?exercise='' @ js ''b'')],
                document := (document ?s)\<lparr>gallery := Some True, exerciseDetail := Some False\<rparr>\<rparr>"
  have x: "exercises ?s = Records demo_catalog"
    by (simp add: demo_loaded_def)
  have f: "find_by_id demo_catalog (js ''b'') = Some (demo_exercise ''b'')"
    by (rule find_demo)
  have c: "exerciseDetailContent (document ?s) \<noteq> None"
    by (simp add: demo_loaded_def initial_state_def demo_page_def)
  have p: "\<not> isPlaying ?s"
    by (simp add: demo_loaded_def initial_state_def)
  have "\<exists>body. detail_markup ?s4 (demo_exercise ''b'') False = Inr (body @ []) \<and>
     renderExerciseDetail ?s4 (demo_exercise ''b'') =
       (Returned Undefined, set_exerciseDetailContent (body @ []) (demo_exercise ''b'') ?s4)"
    by (rule renderExerciseDetail_defined [of _ "[]"])
       (simp_all add: demo_loaded_def initial_state_def demo_page_def js_includes_def
          demo_exercise_def)
  then have "fst (renderExerciseDetail ?s4 (demo_exercise ''b'')) = Returned Undefined"
    by auto
  then have r: "fst (viewExercise ?s (js ''b'')) = Returned Undefined"
    using f
    by (cases "renderExerciseDetail ?s4 (demo_exercise ''b'')")
       (simp add: viewExercise_def Let_def demo_loaded_def initial_state_def demo_page_def)
  from viewExercise_keeps_flags [of ?s "js ''b''" demo_catalog "demo_exercise ''b''"] x f c r p
  show ?thesis by simp
qed

text \<open>
  The claim as the specification states it fails: with exercise \<open>a\<close> open, slow
  motion and the muscle highlight switched on, opening exercise \<open>b\<close> leaves the speed
  at one half and the highlight on.
\<close>

theorem viewExercise_no_reset:
  "currentExercise demo_flagged = Some (demo_exercise ''a'') \<and>
   currentExercise (snd (viewExercise demo_flagged (js ''b''))) = Some (demo_exercise ''b'') \<and>
   animationSpeed (snd (viewExercise demo_flagged (js ''b''))) = 1 / 2 \<and>
   showMuscleHighlight (snd (viewExercise demo_flagged (js ''b'')))"
proof -
  let ?sa = "snd (viewExercise demo_loaded (js ''a''))"
  have e: "exercises demo_loaded = Records demo_catalog"
    and fl: "animationSpeed demo_loaded = 1" "\<not> showMuscleHighlight demo_loaded"
    by (simp_all add: demo_loaded_def initial_state_def)
  have a: "currentExercise ?sa = Some (demo_exercise ''a'')"
    by (rule viewExercise_current [OF e]) (rule find_demo)
  have sa: "exercises ?sa = Records demo_catalog" "animationSpeed ?sa = 1" "\<not> showMuscleHighlight ?sa"
    using viewExercise_flags [of demo_loaded "js ''a''"] e fl by simp_all
  have fa: "currentExercise demo_flagged = Some (demo_exercise ''a'')"
    "exercises demo_flagged = Records demo_catalog"
    "animationSpeed demo_flagged = 1 / 2" "showMuscleHighlight demo_flagged"
    using a sa
    by (simp_all add: demo_flagged_def toggleMuscleHighlight_def toggleSlowMotion_def Let_def
        announceToScreenReader_def split: option.splits)
  have b: "currentExercise (snd (viewExercise demo_flagged (js ''b''))) = Some (demo_exercise ''b'')"
    by (rule viewExercise_current [OF fa(2)]) (rule find_demo)
  from fa b viewExercise_flags [of demo_flagged "js ''b''"] show ?thesis
    by simp
qed

subsection \<open>A serialized array of identifiers reads back as itself\<close>

text \<open>
  Every code unit that \<^verbatim>\<open>JSON.stringify\<close> writes inside a string, raw or escaped,
  is read back by the tokenizer as the code unit it stands for; so the text of an
  array of strings is cut into the tokens of that array, and these are assembled into
  the array.
\<close>

lemma hex_cases:
  "(d::nat) < 16 \<Longrightarrow> d = 0 \<or> d = 1 \<or> d = 2 \<or> d = 3 \<or> d = 4 \<or> d = 5 \<or> d = 6 \<or> d = 7 \<or>
     d = 8 \<or> d = 9 \<or> d = 10 \<or> d = 11 \<or> d = 12 \<or> d = 13 \<or> d = 14 \<or> d = 15"
  by arith

lemma unat_code_unit: "unat (c :: code_unit) < 65536"
  using unsigned_less [of c] by simp

lemma hex_value_hex_digit:
  assumes "d < 16"
  shows "hex_value (hex_digit d) = Some d"
  using hex_cases [OF assms]
  by (elim disjE) (simp_all add: hex_value_def hex_digit_def is_digit_def)

lemma div16: "(n::nat) div 256 = n div 16 div 16" "n div 4096 = n div 16 div 16 div 16"
  by (simp_all add: div_mult2_eq [symmetric])

lemma hex_recompose:
  "((n div 4096 * 16 + n div 256 mod 16) * 16 + n div 16 mod 16) * 16 + n mod 16 = (n::nat)"
proof -
  define a where "a = n div 16"
  define b where "b = a div 16"
  define c where "c = b div 16"
  have 1: "n = a * 16 + n mod 16" by (simp add: a_def)
  have 2: "a = b * 16 + a mod 16" by (simp add: b_def)
  have 3: "b = c * 16 + b mod 16" by (simp add: c_def)
  have "((c * 16 + b mod 16) * 16 + a mod 16) * 16 + n mod 16 = n"
    using 1 2 3 by simp
  then show ?thesis
    by (simp add: div16 a_def b_def c_def)
qed

lemma hex_bounds:
  "n < 65536 \<Longrightarrow> n div 4096 < (16::nat)" "n div 256 mod 16 < (16::nat)"
  "n div 16 mod 16 < (16::nat)" "n mod 16 < (16::nat)"
  by simp_all

lemma lex_hex4:
  assumes "hex_value c3 = Some a" "hex_value c2 = Some b" "hex_value c1 = Some c"
    "hex_value c0 = Some d"
  shows "lex_run (LUnicode acc 0 0, toks) (c3 # c2 # c1 # c0 # rest) =
         lex_run (LString (of_nat (((a * 16 + b) * 16 + c) * 16 + d) # acc), toks) rest"
  using assms by simp

lemma lex_unicode_escape:
  "lex_run (LString acc, toks) (unicode_escape c @ rest) =
   lex_run (LString (c # acc), toks) rest"
proof -
  let ?n = "unat c"
  have n: "?n < 65536" by (rule unat_code_unit)
  have "lex_run (LString acc, toks) (unicode_escape c @ rest) =
        lex_run (LUnicode acc 0 0, toks)
          (hex_digit (?n div 4096) # hex_digit (?n div 256 mod 16) #
           hex_digit (?n div 16 mod 16) # hex_digit (?n mod 16) # rest)"
    by (simp add: unicode_escape_def Let_def lex_escape_def)
  also have "\<dots> = lex_run (LString (of_nat
       (((?n div 4096 * 16 + ?n div 256 mod 16) * 16 + ?n div 16 mod 16) * 16 + ?n mod 16) # acc),
       toks) rest"
    by (rule lex_hex4) (simp_all add: hex_value_hex_digit hex_bounds n)
  also have "\<dots> = lex_run (LString (c # acc), toks) rest"
    by (simp only: hex_recompose) simp
  finally show ?thesis .
qed

lemma lex_raw:
  "c \<noteq> 0x22 \<Longrightarrow> c \<noteq> 0x5C \<Longrightarrow> \<not> c < 0x20 \<Longrightarrow>
   lex_run (LString acc, toks) (c # rest) = lex_run (LString (c # acc), toks) rest"
  by simp

lemma lex_quote_unit:
  "lex_run (LString acc, toks) (quote_unit c @ rest) =
   lex_run (LString (c # acc), toks) rest"
proof -
  consider "c = 0x08" | "c = 0x09" | "c = 0x0A" | "c = 0x0C" | "c = 0x0D" | "c = 0x22"
    | "c = 0x5C"
    | "c \<notin> {0x08, 0x09, 0x0A, 0x0C, 0x0D, 0x22, 0x5C}" "c < 0x20 \<or> is_lead c \<or> is_trail c"
    | "c \<notin> {0x08, 0x09, 0x0A, 0x0C, 0x0D, 0x22, 0x5C}" "\<not> (c < 0x20 \<or> is_lead c \<or> is_trail c)"
    by blast
  then show ?thesis
  proof cases
    case 8
    then have "quote_unit c = unicode_escape c"
      by (simp add: quote_unit_def)
    then show ?thesis by (simp only: lex_unicode_escape)
  next
    case 9
    then have "quote_unit c = [c]"
      by (simp add: quote_unit_def)
    with 9 show ?thesis by simp
  qed (simp_all add: quote_unit_def lex_escape_def)
qed

lemma surrogate_raw:
  "is_lead c \<or> is_trail c \<Longrightarrow> c \<noteq> 0x22 \<and> c \<noteq> 0x5C \<and> \<not> c < 0x20"
  by (auto simp: is_lead_def is_trail_def word_le_nat_alt word_less_nat_alt)

lemma lex_quote_units:
  "lex_run (LString acc, toks) (quote_units s @ rest) =
   lex_run (LString (rev s @ acc), toks) rest"
proof (induction s arbitrary: acc rule: quote_units.induct)
  case 1
  then show ?case by simp
next
  case (2 c)
  then show ?case by (simp add: lex_quote_unit)
next
  case (3 c d ds)
  show ?case
  proof (cases "is_lead c \<and> is_trail d")
    case True
    then have q: "quote_units (c # d # ds) = c # d # quote_units ds"
      by simp
    have "lex_run (LString acc, toks) (c # d # quote_units ds @ rest) =
          lex_run (LString (d # c # acc), toks) (quote_units ds @ rest)"
      using True surrogate_raw [of c] surrogate_raw [of d] by (simp add: lex_raw)
    also have "\<dots> = lex_run (LString (rev ds @ d # c # acc), toks) rest"
      using True by (rule "3.IH"(1))
    finally show ?thesis
      by (simp only: q append_Cons rev.simps append_assoc append_Nil)
  next
    case False
    then have q: "quote_units (c # d # ds) = quote_unit c @ quote_units (d # ds)"
      by auto
    have "lex_run (LString acc, toks) (quote_unit c @ quote_units (d # ds) @ rest) =
          lex_run (LString (c # acc), toks) (quote_units (d # ds) @ rest)"
      by (rule lex_quote_unit)
    also have "\<dots> = lex_run (LString (rev (d # ds) @ c # acc), toks) rest"
      using False by (rule "3.IH"(2))
    finally show ?thesis
      by (simp only: q append_Cons rev.simps append_assoc append_Nil)
  qed
qed

lemma lex_QuoteJSONString:
  "lex_run (LIdle, toks) (QuoteJSONString s @ rest) = lex_run (LIdle, TString s # toks) rest"
proof -
  have "lex_run (LIdle, toks) (QuoteJSONString s @ rest) =
        lex_run (LString [], toks) (quote_units s @ 0x22 # rest)"
    by (simp add: QuoteJSONString_def lex_idle_def is_ws_def)
  also have "\<dots> = lex_run (LString (rev s), toks) (0x22 # rest)"
    by (simp add: lex_quote_units)
  finally show ?thesis by simp
qed

lemma lex_join:
  "lex_run (LIdle, toks) (join [0x2C] (map QuoteJSONString ids) @ rest) =
   lex_run (LIdle, rev (id_tokens ids) @ toks) rest"
proof (induction ids arbitrary: toks rule: id_tokens.induct)
  case 1
  then show ?case by simp
next
  case (2 x)
  then show ?case by (simp add: lex_QuoteJSONString)
next
  case (3 x y ys)
  have "lex_run (LIdle, toks) (join [0x2C] (map QuoteJSONString (x # y # ys)) @ rest) =
        lex_run (LIdle, toks)
          (QuoteJSONString x @ 0x2C # join [0x2C] (map QuoteJSONString (y # ys)) @ rest)"
    by simp
  also have "\<dots> = lex_run (LIdle, TString x # toks)
          (0x2C # join [0x2C] (map QuoteJSONString (y # ys)) @ rest)"
    by (rule lex_QuoteJSONString)
  also have "\<dots> = lex_run (LIdle, TComma # TString x # toks)
          (join [0x2C] (map QuoteJSONString (y # ys)) @ rest)"
    by (simp add: lex_idle_def is_ws_def)
  also have "\<dots> = lex_run (LIdle, rev (id_tokens (y # ys)) @ TComma # TString x # toks) rest"
    by (rule "3.IH")
  finally show ?case by simp
qed

lemma lex_id_array:
  "lex_run (LIdle, []) (JSON_stringify (JArr (map JStr ids))) =
   Some (TLBracket # id_tokens ids @ [TRBracket])"
proof -
  have m: "map JSON_stringify (map JStr ids) = map QuoteJSONString ids"
    by simp
  have "lex_run (LIdle, []) (JSON_stringify (JArr (map JStr ids))) =
        lex_run (LIdle, [TLBracket]) (join [0x2C] (map QuoteJSONString ids) @ [0x5D])"
    by (simp only: JSON_stringify.simps m) (simp add: js_def lex_idle_def is_ws_def)
  also have "\<dots> = lex_run (LIdle, rev (id_tokens ids) @ [TLBracket]) [0x5D]"
    by (rule lex_join)
  also have "\<dots> = Some (TLBracket # id_tokens ids @ [TRBracket])"
    by (simp add: lex_idle_def is_ws_def)
  finally show ?thesis .
qed

lemma parse_elements:
  "st = PValue \<or> st = PValueOrEnd \<Longrightarrow>
   parse_run ([FArray es], st) (id_tokens (x # xs) @ [TRBracket]) =
   Some (JArr (rev es @ map JStr (x # xs)))"
proof (induction xs arbitrary: x es st)
  case Nil
  then show ?case
    by (auto simp: parse_value_token_def close_array_def)
next
  case (Cons y ys)
  have "parse_run ([FArray es], st) (id_tokens (x # y # ys) @ [TRBracket]) =
        parse_run ([FArray (JStr x # es)], PValue) (id_tokens (y # ys) @ [TRBracket])"
    using Cons.prems by (auto simp: parse_value_token_def)
  also have "\<dots> = Some (JArr (rev (JStr x # es) @ map JStr (y # ys)))"
    by (rule Cons.IH) simp
  finally show ?case by simp
qed

lemma parse_id_array:
  "parse_run ([], PValue) (TLBracket # id_tokens ids @ [TRBracket]) = Some (JArr (map JStr ids))"
proof (cases ids)
  case Nil
  then show ?thesis
    by (simp add: parse_value_token_def close_array_def)
next
  case (Cons x xs)
  have "parse_run ([], PValue) (TLBracket # id_tokens (x # xs) @ [TRBracket]) =
        parse_run ([FArray []], PValueOrEnd) (id_tokens (x # xs) @ [TRBracket])"
    by (simp add: parse_value_token_def)
  also have "\<dots> = Some (JArr (rev [] @ map JStr (x # xs)))"
    by (rule parse_elements) simp
  finally show ?thesis using Cons by simp
qed

lemma JSON_roundtrip_ids:
  "JSON_parse (JSON_stringify (JArr (map JStr ids))) = Inr (JArr (map JStr ids))"
  unfolding JSON_parse_def
  by (simp only: lex_id_array parse_id_array option.case)

subsection \<open>Toggling a bookmark\<close>

lemma array_indexOf_None: "(array_indexOf bs x = None) = (x \<notin> set bs)"
  by (induction bs) auto

lemma array_indexOf_remove1: "array_indexOf bs x = Some i \<Longrightarrow> splice1 bs i = remove1 x bs"
proof (induction bs arbitrary: i)
  case Nil
  then show ?case by simp
next
  case (Cons b bs)
  show ?case
  proof (cases "b = x")
    case True
    with Cons.prems show ?thesis by (simp add: splice1_def)
  next
    case False
    with Cons.prems obtain j where j: "array_indexOf bs x = Some j" "i = Suc j"
      by auto
    with Cons.IH have "splice1 bs j = remove1 x bs" by simp
    with False j show ?thesis by (simp add: splice1_def)
  qed
qed

lemma create_cards_array:
  "bookmarkedExercises s = JArr bs \<Longrightarrow> \<exists>m. create_cards s exs = Inr m"
proof (induction exs)
  case Nil
  then show ?case by simp
next
  case (Cons ex exs)
  then obtain m where m: "create_cards s exs = Inr m" by auto
  from Cons.prems obtain c where "createExerciseCard s ex = Inr c"
    by (simp add: createExerciseCard_def js_includes_def)
  with m show ?case by simp
qed

lemma renderExerciseGallery_returns:
  assumes "bookmarkedExercises s = JArr bs" and "exercises s = Records exs"
    and "\<not> list_ex (\<lambda>ex. has_lone_surrogate (exercise_id ex)) exs"
  shows "fst (renderExerciseGallery s) = Returned Undefined"
  using create_cards_array [OF assms(1), of exs] assms(2,3)
  by (auto simp: renderExerciseGallery_def split: option.splits)

lemma renderExerciseDetail_completion:
  "fst (renderExerciseDetail s ex) = Returned Undefined \<or>
   (\<exists>e. fst (renderExerciseDetail s ex) = Thrown e)"
  by (auto simp: renderExerciseDetail_def setup_video_def split: option.splits sum.splits)

lemma renderExerciseGallery_completion:
  "fst (renderExerciseGallery s) = Returned Undefined \<or>
   (\<exists>e. fst (renderExerciseGallery s) = Thrown e)"
  by (auto simp: renderExerciseGallery_def
        split: option.splits sum.splits catalog.splits non_array.splits)

text \<open>The state after the bookmarks are changed and saved, before anything is rendered.\<close>

lemma toggleBookmark_saved:
  assumes "bookmarkedExercises s = JArr bs"
  shows "\<exists>d n. snd (toggleBookmark s i) =
     s\<lparr>bookmarkedExercises :=
          JArr (if JStr i \<in> set bs then remove1 (JStr i) bs else bs @ [JStr i]),
       localStorage := Some (JSON_stringify
          (JArr (if JStr i \<in> set bs then remove1 (JStr i) bs else bs @ [JStr i]))),
       announcements := n, document := d\<rparr>"
proof -
  let ?bs' = "if JStr i \<in> set bs then remove1 (JStr i) bs else bs @ [JStr i]"
  let ?n = "announcements s @ [if JStr i \<in> set bs then js ''Exercise removed from bookmarks''
                               else js ''Exercise added to bookmarks'']"
  let ?s2 = "s\<lparr>bookmarkedExercises := JArr ?bs', announcements := ?n,
               localStorage := Some (JSON_stringify (JArr ?bs'))\<rparr>"
  define s2 where "s2 = saveBookmarks (case array_indexOf bs (JStr i) of
        Some index \<Rightarrow> announceToScreenReader (js ''Exercise removed from bookmarks'')
                        (s\<lparr>bookmarkedExercises := JArr (splice1 bs index)\<rparr>)
      | None \<Rightarrow> announceToScreenReader (js ''Exercise added to bookmarks'')
                        (s\<lparr>bookmarkedExercises := JArr (bs @ [JStr i])\<rparr>))"
  have s2: "s2 = ?s2"
  proof (cases "array_indexOf bs (JStr i)")
    case None
    then have "JStr i \<notin> set bs" by (simp add: array_indexOf_None)
    with None show ?thesis
      unfolding s2_def
      by (simp add: saveBookmarks_def announceToScreenReader_def del: JSON_stringify.simps)
  next
    case (Some index)
    then have "JStr i \<in> set bs"
      using array_indexOf_None [of bs "JStr i"] by auto
    with Some array_indexOf_remove1 [OF Some] show ?thesis
      unfolding s2_def
      by (simp add: saveBookmarks_def announceToScreenReader_def del: JSON_stringify.simps)
  qed
  have t: "toggleBookmark s i =
     (case exercises s2 of
        NotArray v \<Rightarrow> (Thrown TypeError, s2)
      | Records exs \<Rightarrow>
          (case find_by_id exs i of
             None \<Rightarrow> (Returned Undefined, s2)
           | Some exercise \<Rightarrow>
               if (case currentExercise s2 of None \<Rightarrow> False
                   | Some current \<Rightarrow> exercise_id current = i)
               then renderExerciseDetail s2 exercise
               else renderExerciseGallery s2))"
    unfolding s2_def using assms by (simp add: toggleBookmark_def Let_def)
  have "snd (toggleBookmark s i) = s2 \<or>
        (\<exists>ex. snd (toggleBookmark s i) = snd (renderExerciseDetail s2 ex)) \<or>
        snd (toggleBookmark s i) = snd (renderExerciseGallery s2)"
    unfolding t by (auto split: option.splits catalog.splits)
  moreover have "\<exists>d. s2 = s2\<lparr>document := d\<rparr>"
    by (rule same_document)
  moreover have "\<exists>d. snd (renderExerciseDetail s2 ex) = s2\<lparr>document := d\<rparr>" for ex
    by (rule renderExerciseDetail_document)
  moreover have "\<exists>d. snd (renderExerciseGallery s2) = s2\<lparr>document := d\<rparr>"
    by (rule renderExerciseGallery_document)
  ultimately obtain d where "snd (toggleBookmark s i) = s2\<lparr>document := d\<rparr>"
    by metis
  then have "snd (toggleBookmark s i) = ?s2\<lparr>document := d\<rparr>"
    by (simp only: s2)
  then have "snd (toggleBookmark s i) =
     s\<lparr>bookmarkedExercises := JArr ?bs', localStorage := Some (JSON_stringify (JArr ?bs')),
       announcements := ?n, document := d\<rparr>"
    by (simp del: JSON_stringify.simps)
  then show ?thesis by blast
qed

lemma toggleBookmark_bookmarks:
  assumes "bookmarkedExercises s = JArr bs"
  shows "bookmarkedExercises (snd (toggleBookmark s i)) =
           JArr (if JStr i \<in> set bs then remove1 (JStr i) bs else bs @ [JStr i])"
    and "localStorage (snd (toggleBookmark s i)) =
           Some (JSON_stringify (bookmarkedExercises (snd (toggleBookmark s i))))"
proof -
  obtain d n where "snd (toggleBookmark s i) =
     s\<lparr>bookmarkedExercises :=
          JArr (if JStr i \<in> set bs then remove1 (JStr i) bs else bs @ [JStr i]),
       localStorage := Some (JSON_stringify
          (JArr (if JStr i \<in> set bs then remove1 (JStr i) bs else bs @ [JStr i]))),
       announcements := n, document := d\<rparr>"
    using toggleBookmark_saved [OF assms] by blast
  then show "bookmarkedExercises (snd (toggleBookmark s i)) =
           JArr (if JStr i \<in> set bs then remove1 (JStr i) bs else bs @ [JStr i])"
    and "localStorage (snd (toggleBookmark s i)) =
           Some (JSON_stringify (bookmarkedExercises (snd (toggleBookmark s i))))"
    by (simp_all del: JSON_stringify.simps)
qed

lemma toggleBookmark_completion:
  "fst (toggleBookmark s i) = Returned Undefined \<or> (\<exists>e. fst (toggleBookmark s i) = Thrown e)"
proof (cases "\<exists>bs. bookmarkedExercises s = JArr bs")
  case False
  then show ?thesis
    by (cases "bookmarkedExercises s") (simp_all add: toggleBookmark_def)
next
  case True
  then obtain bs where bs: "bookmarkedExercises s = JArr bs" by blast
  have "fst (toggleBookmark s i) = Returned Undefined \<or>
        fst (toggleBookmark s i) = Thrown TypeError \<or>
        (\<exists>s' ex. fst (toggleBookmark s i) = fst (renderExerciseDetail s' ex)) \<or>
        (\<exists>s'. fst (toggleBookmark s i) = fst (renderExerciseGallery s'))"
    using bs by (auto simp: toggleBookmark_def Let_def split: option.splits catalog.splits)
  then show ?thesis
    using renderExerciseDetail_completion renderExerciseGallery_completion by metis
qed

lemma toggleBookmark_gallery:
  assumes "bookmarkedExercises s = JArr bs" and "currentExercise s = None"
    and "exercises s = Records exs"
    and "\<not> list_ex (\<lambda>ex. has_lone_surrogate (exercise_id ex)) exs"
  shows "fst (toggleBookmark s i) = Returned Undefined"
proof -
  define s2 where "s2 = saveBookmarks (case array_indexOf bs (JStr i) of
        Some index \<Rightarrow> announceToScreenReader (js ''Exercise removed from bookmarks'')
                        (s\<lparr>bookmarkedExercises := JArr (splice1 bs index)\<rparr>)
      | None \<Rightarrow> announceToScreenReader (js ''Exercise added to bookmarks'')
                        (s\<lparr>bookmarkedExercises := JArr (bs @ [JStr i])\<rparr>))"
  have c: "currentExercise s2 = None" and x: "exercises s2 = Records exs"
    and b: "\<exists>bs'. bookmarkedExercises s2 = JArr bs'"
    unfolding s2_def using assms(2,3)
    by (simp_all add: saveBookmarks_def announceToScreenReader_def split: option.splits)
  have t: "toggleBookmark s i =
     (case exercises s2 of
        NotArray v \<Rightarrow> (Thrown TypeError, s2)
      | Records exs \<Rightarrow>
          (case find_by_id exs i of
             None \<Rightarrow> (Returned Undefined, s2)
           | Some exercise \<Rightarrow>
               if (case currentExercise s2 of None \<Rightarrow> False
                   | Some current \<Rightarrow> exercise_id current = i)
               then renderExerciseDetail s2 exercise
               else renderExerciseGallery s2))"
    unfolding s2_def using assms(1) by (simp add: toggleBookmark_def Let_def)
  show ?thesis
  proof (cases "find_by_id exs i")
    case None
    then show ?thesis by (simp add: t x)
  next
    case (Some ex)
    with c have "toggleBookmark s i = renderExerciseGallery s2"
      by (simp add: t x)
    moreover obtain bs' where "bookmarkedExercises s2 = JArr bs'"
      using b by blast
    ultimately show ?thesis
      using renderExerciseGallery_returns [of s2 bs' exs] x assms(4) by simp
  qed
qed

lemma remove1_JStr: "remove1 (JStr i) (map JStr ids) = map JStr (remove1 i ids)"
  by (induction ids) auto

lemma toggleBookmark_ids:
  assumes "bookmarkedExercises s = JArr (map JStr ids)"
  shows "bookmarkedExercises (snd (toggleBookmark s i)) =
           JArr (map JStr (if i \<in> set ids then remove1 i ids else ids @ [i]))"
  using toggleBookmark_bookmarks(1) [OF assms, of i]
  by (auto simp: remove1_JStr)

lemma stringify_array_nonempty: "JSON_stringify (JArr bs) \<noteq> []"
  by (simp add: js_def)

lemma toggleBookmark_reload:
  assumes "bookmarkedExercises s = JArr (map JStr ids)"
  shows "\<exists>t. localStorage (snd (toggleBookmark s i)) = Some t \<and>
           JSON_parse t = Inr (bookmarkedExercises (snd (toggleBookmark s i)))"
    and "bookmarkedExercises (loadBookmarks (snd (toggleBookmark s i))) =
           bookmarkedExercises (snd (toggleBookmark s i))"
proof -
  let ?s1 = "snd (toggleBookmark s i)"
  let ?ids1 = "if i \<in> set ids then remove1 i ids else ids @ [i]"
  have b: "bookmarkedExercises ?s1 = JArr (map JStr ?ids1)"
    by (rule toggleBookmark_ids [OF assms])
  have l: "localStorage ?s1 = Some (JSON_stringify (JArr (map JStr ?ids1)))"
    using toggleBookmark_bookmarks(2) [OF assms, of i] b by (simp only:)
  have p: "JSON_parse (JSON_stringify (JArr (map JStr ?ids1))) = Inr (JArr (map JStr ?ids1))"
    by (rule JSON_roundtrip_ids)
  from l p b show "\<exists>t. localStorage ?s1 = Some t \<and> JSON_parse t = Inr (bookmarkedExercises ?s1)"
    by (simp only:) blast
  have "loadBookmarks ?s1 = ?s1\<lparr>bookmarkedExercises := JArr (map JStr ?ids1)\<rparr>"
    unfolding loadBookmarks_def l option.case
    using stringify_array_nonempty [of "map JStr ?ids1"]
    by (simp only: p sum.case if_False)
  then show "bookmarkedExercises (loadBookmarks ?s1) = bookmarkedExercises ?s1"
    by (simp add: b)
qed

lemma renderExerciseDetail_undeclared_array:
  "exerciseDetailContent (document s) \<noteq> None \<Longrightarrow> window_backMarkup s = None \<Longrightarrow>
   bookmarkedExercises s = JArr bs \<Longrightarrow>
   renderExerciseDetail s ex = (Thrown (ReferenceError (js ''backMarkup is not defined'')), s)"
  by (auto simp: renderExerciseDetail_def detail_markup_undeclared js_includes_def)

lemma stringify_one: \<open>JSON_stringify (JArr [JStr (js ''a'')]) = js ''["a"]''\<close>
  \<open>JSON_stringify (JArr [JStr (js ''b'')]) = js ''["b"]''\<close>
  by (simp_all add: js_def QuoteJSONString_def quote_unit_def is_lead_def is_trail_def)


lemma toggleBookmark_current:
  assumes "bookmarkedExercises s = JArr bs"
    and "exercises s = Records exs" and "find_by_id exs i = Some ex"
    and "currentExercise s = Some cur" and "exercise_id cur = i"
    and "exerciseDetailContent (document s) \<noteq> None" and "window_backMarkup s = None"
  shows "fst (toggleBookmark s i) = Thrown (ReferenceError (js ''backMarkup is not defined''))"
proof -
  define s2 where "s2 = saveBookmarks (case array_indexOf bs (JStr i) of
        Some index \<Rightarrow> announceToScreenReader (js ''Exercise removed from bookmarks'')
                        (s\<lparr>bookmarkedExercises := JArr (splice1 bs index)\<rparr>)
      | None \<Rightarrow> announceToScreenReader (js ''Exercise added to bookmarks'')
                        (s\<lparr>bookmarkedExercises := JArr (bs @ [JStr i])\<rparr>))"
  have c: "currentExercise s2 = Some cur" and e: "exercises s2 = exercises s"
    and d: "exerciseDetailContent (document s2) \<noteq> None" and w: "window_backMarkup s2 = None"
    and b: "\<exists>bs'. bookmarkedExercises s2 = JArr bs'"
    unfolding s2_def using assms(4,6,7)
    by (simp_all add: saveBookmarks_def announceToScreenReader_def split: option.splits)
  have t: "toggleBookmark s i =
     (case exercises s2 of
        NotArray v \<Rightarrow> (Thrown TypeError, s2)
      | Records exs \<Rightarrow>
          (case find_by_id exs i of
             None \<Rightarrow> (Returned Undefined, s2)
           | Some exercise \<Rightarrow>
               if (case currentExercise s2 of None \<Rightarrow> False
                   | Some current \<Rightarrow> exercise_id current = i)
               then renderExerciseDetail s2 exercise
               else renderExerciseGallery s2))"
    unfolding s2_def using assms(1) by (simp add: toggleBookmark_def Let_def)
  have "toggleBookmark s i = renderExerciseDetail s2 ex"
    by (simp add: t e c assms(2,3,5))
  moreover obtain bs' where "bookmarkedExercises s2 = JArr bs'"
    using b by blast
  ultimately show ?thesis
    using renderExerciseDetail_undeclared_array [OF d w, of bs' ex] by simp
qed

text \<open>
  Claim C5, as the script has it. On a bookmark array without duplicates,
  \<^verbatim>\<open>toggleBookmark\<close> flips the membership of the identifier and of no other, keeps
  the array free of duplicates, and has written the new array to the storage slot when
  it ends, also when the rendering that follows the write throws. It returns no value:
  the call ends with undefined, or with an error thrown by the rendering.
\<close>

theorem toggleBookmark_flips_and_saves:
  "(bookmarkedExercises s = JArr bs \<and> distinct bs \<longrightarrow>
      (\<exists>bs'. bookmarkedExercises (snd (toggleBookmark s i)) = JArr bs' \<and> distinct bs' \<and>
             (JStr i \<in> set bs') = (JStr i \<notin> set bs) \<and>
             set bs' - {JStr i} = set bs - {JStr i} \<and>
             localStorage (snd (toggleBookmark s i)) = Some (JSON_stringify (JArr bs')))) \<and>
   (fst (toggleBookmark s i) = Returned Undefined \<or> (\<exists>e. fst (toggleBookmark s i) = Thrown e))"
proof (intro conjI impI)
  assume a: "bookmarkedExercises s = JArr bs \<and> distinct bs"
  let ?bs' = "if JStr i \<in> set bs then remove1 (JStr i) bs else bs @ [JStr i]"
  have b: "bookmarkedExercises (snd (toggleBookmark s i)) = JArr ?bs'"
    using a by (simp only: toggleBookmark_bookmarks(1))
  have l: "localStorage (snd (toggleBookmark s i)) = Some (JSON_stringify (JArr ?bs'))"
    using a toggleBookmark_bookmarks(2) [of s bs i] b by (simp only:)
  have d: "distinct ?bs'" using a by simp
  have m: "(JStr i \<in> set ?bs') = (JStr i \<notin> set bs)" using a by simp
  have o: "set ?bs' - {JStr i} = set bs - {JStr i}" using a by auto
  from b l d m o
  show "\<exists>bs'. bookmarkedExercises (snd (toggleBookmark s i)) = JArr bs' \<and> distinct bs' \<and>
             (JStr i \<in> set bs') = (JStr i \<notin> set bs) \<and>
             set bs' - {JStr i} = set bs - {JStr i} \<and>
             localStorage (snd (toggleBookmark s i)) = Some (JSON_stringify (JArr bs'))"
    by blast
next
  show "fst (toggleBookmark s i) = Returned Undefined \<or> (\<exists>e. fst (toggleBookmark s i) = Thrown e)"
    by (rule toggleBookmark_completion)
qed

theorem toggleBookmark_flips_and_saves_witness:
  \<open>bookmarkedExercises (demo_loaded\<lparr>currentExercise := Some (demo_exercise ''a'')\<rparr>) = JArr [] \<and>
   distinct ([] :: json list) \<and>
   bookmarkedExercises
     (snd (toggleBookmark (demo_loaded\<lparr>currentExercise := Some (demo_exercise ''a'')\<rparr>) (js ''a''))) =
     JArr [JStr (js ''a'')] \<and>
   localStorage
     (snd (toggleBookmark (demo_loaded\<lparr>currentExercise := Some (demo_exercise ''a'')\<rparr>) (js ''a''))) =
     Some (js ''["a"]'') \<and>
   fst (toggleBookmark (demo_loaded\<lparr>currentExercise := Some (demo_exercise ''a'')\<rparr>) (js ''a'')) =
     Thrown (ReferenceError (js ''backMarkup is not defined''))\<close>
proof -
  let ?s = "demo_loaded\<lparr>currentExercise := Some (demo_exercise ''a'')\<rparr>"
  note c1 = toggleBookmark_flips_and_saves [THEN conjunct1, rule_format]
  have b: "bookmarkedExercises ?s = JArr []"
    by (simp add: demo_loaded_def initial_state_def)
  have b1: "bookmarkedExercises (snd (toggleBookmark ?s (js ''a''))) = JArr [JStr (js ''a'')]"
    using toggleBookmark_bookmarks(1) [OF b, of "js ''a''"] by simp
  have "\<exists>bs'. bookmarkedExercises (snd (toggleBookmark ?s (js ''a''))) = JArr bs' \<and> distinct bs' \<and>
             (JStr (js ''a'') \<in> set bs') = (JStr (js ''a'') \<notin> set []) \<and>
             set bs' - {JStr (js ''a'')} = set [] - {JStr (js ''a'')} \<and>
             localStorage (snd (toggleBookmark ?s (js ''a''))) = Some (JSON_stringify (JArr bs'))"
    by (rule c1) (simp add: b)
  then obtain bs' where "bookmarkedExercises (snd (toggleBookmark ?s (js ''a''))) = JArr bs'"
    and "localStorage (snd (toggleBookmark ?s (js ''a''))) = Some (JSON_stringify (JArr bs'))"
    by blast
  with b1 have l: \<open>localStorage (snd (toggleBookmark ?s (js ''a''))) = Some (js ''["a"]'')\<close>
    by (simp only: stringify_one json.inject)
  have t: "fst (toggleBookmark ?s (js ''a'')) =
      Thrown (ReferenceError (js ''backMarkup is not defined''))"
    by (rule toggleBookmark_current
          [of _ "[]" demo_catalog _ "demo_exercise ''a''" "demo_exercise ''a''"])
       (simp_all add: demo_loaded_def initial_state_def demo_page_def find_demo,
        simp add: demo_exercise_def)
  have d: "distinct ([] :: json list)" by simp
  from b b1 l t d show ?thesis by (intro conjI)
qed

text \<open>
  The claim as the specification states it, that the toggle returns the new membership
  to its caller, fails: with nothing bookmarked, toggling \<open>b\<close> bookmarks it and
  returns undefined, not true.
\<close>

theorem toggleBookmark_returns_undefined:
  "bookmarkedExercises demo_loaded = JArr [] \<and>
   bookmarkedExercises (snd (toggleBookmark demo_loaded (js ''b''))) = JArr [JStr (js ''b'')] \<and>
   fst (toggleBookmark demo_loaded (js ''b'')) = Returned Undefined"
proof -
  have b: "bookmarkedExercises demo_loaded = JArr []"
    and c: "currentExercise demo_loaded = None"
    and x: "exercises demo_loaded = Records demo_catalog"
    by (simp_all add: demo_loaded_def initial_state_def)
  have u: "\<not> list_ex (\<lambda>ex. has_lone_surrogate (exercise_id ex)) demo_catalog"
    by (simp add: demo_catalog_def demo_exercise_def js_def is_lead_def is_trail_def)
  from b toggleBookmark_bookmarks(1) [OF b, of "js ''b''"]
    toggleBookmark_gallery [OF b c x u, of "js ''b''"]
  show ?thesis by simp
qed

text \<open>
  Claim C2. On a bookmark set, that is an array of identifiers without duplicates,
  each toggle leaves such an array; the first one flips the membership of the
  identifier, the second one gives back a set with the members of the original; and
  after each of the two the text in the storage slot parses to the array in memory,
  so that \<^verbatim>\<open>loadBookmarks\<close> would read back what is there.
\<close>

theorem double_toggle_restores:
  "bookmarkedExercises s = JArr (map JStr ids) \<and> distinct ids \<longrightarrow>
   (\<exists>ids1 ids2.
      bookmarkedExercises (snd (toggleBookmark s i)) = JArr (map JStr ids1) \<and>
      bookmarkedExercises (snd (toggleBookmark (snd (toggleBookmark s i)) i)) =
        JArr (map JStr ids2) \<and>
      distinct ids1 \<and> distinct ids2 \<and>
      (i \<in> set ids1) = (i \<notin> set ids) \<and> set ids2 = set ids \<and>
      (\<exists>t. localStorage (snd (toggleBookmark s i)) = Some t \<and>
           JSON_parse t = Inr (JArr (map JStr ids1))) \<and>
      (\<exists>t. localStorage (snd (toggleBookmark (snd (toggleBookmark s i)) i)) = Some t \<and>
           JSON_parse t = Inr (JArr (map JStr ids2))) \<and>
      bookmarkedExercises (loadBookmarks (snd (toggleBookmark s i))) = JArr (map JStr ids1) \<and>
      bookmarkedExercises (loadBookmarks (snd (toggleBookmark (snd (toggleBookmark s i)) i))) =
        JArr (map JStr ids2))"
proof
  assume a: "bookmarkedExercises s = JArr (map JStr ids) \<and> distinct ids"
  let ?s1 = "snd (toggleBookmark s i)"
  let ?s2 = "snd (toggleBookmark ?s1 i)"
  define ids1 where "ids1 = (if i \<in> set ids then remove1 i ids else ids @ [i])"
  define ids2 where "ids2 = (if i \<in> set ids1 then remove1 i ids1 else ids1 @ [i])"
  have b1: "bookmarkedExercises ?s1 = JArr (map JStr ids1)"
    unfolding ids1_def using a by (simp only: toggleBookmark_ids)
  have b2: "bookmarkedExercises ?s2 = JArr (map JStr ids2)"
    unfolding ids2_def by (rule toggleBookmark_ids [OF b1])
  have d1: "distinct ids1" and m1: "(i \<in> set ids1) = (i \<notin> set ids)"
    using a by (simp_all add: ids1_def)
  have d2: "distinct ids2" using d1 by (simp add: ids2_def)
  have m2: "set ids2 = set ids"
    using a by (auto simp: ids2_def ids1_def)
  have r1: "\<exists>t. localStorage ?s1 = Some t \<and> JSON_parse t = Inr (JArr (map JStr ids1))"
    using toggleBookmark_reload(1) [of s ids i] a b1 by (simp only:)
  have r2: "\<exists>t. localStorage ?s2 = Some t \<and> JSON_parse t = Inr (JArr (map JStr ids2))"
    using toggleBookmark_reload(1) [OF b1, of i] b2 by (simp only:)
  have l1: "bookmarkedExercises (loadBookmarks ?s1) = JArr (map JStr ids1)"
    using toggleBookmark_reload(2) [of s ids i] a b1 by (simp only:)
  have l2: "bookmarkedExercises (loadBookmarks ?s2) = JArr (map JStr ids2)"
    using toggleBookmark_reload(2) [OF b1, of i] b2 by (simp only:)
  from b1 b2 d1 d2 m1 m2 r1 r2 l1 l2
  show "\<exists>ids1 ids2.
      bookmarkedExercises ?s1 = JArr (map JStr ids1) \<and>
      bookmarkedExercises ?s2 = JArr (map JStr ids2) \<and>
      distinct ids1 \<and> distinct ids2 \<and>
      (i \<in> set ids1) = (i \<notin> set ids) \<and> set ids2 = set ids \<and>
      (\<exists>t. localStorage ?s1 = Some t \<and> JSON_parse t = Inr (JArr (map JStr ids1))) \<and>
      (\<exists>t. localStorage ?s2 = Some t \<and> JSON_parse t = Inr (JArr (map JStr ids2))) \<and>
      bookmarkedExercises (loadBookmarks ?s1) = JArr (map JStr ids1) \<and>
      bookmarkedExercises (loadBookmarks ?s2) = JArr (map JStr ids2)"
    by blast
qed

theorem double_toggle_restores_witness:
  \<open>bookmarkedExercises demo_loaded = JArr (map JStr []) \<and> distinct ([] :: jsstring list) \<and>
   bookmarkedExercises (snd (toggleBookmark demo_loaded (js ''b''))) = JArr [JStr (js ''b'')] \<and>
   bookmarkedExercises (snd (toggleBookmark (snd (toggleBookmark demo_loaded (js ''b''))) (js ''b''))) =
     JArr [] \<and>
   localStorage (snd (toggleBookmark demo_loaded (js ''b''))) = Some (js ''["b"]'') \<and>
   JSON_parse (js ''["b"]'') = Inr (JArr [JStr (js ''b'')])\<close>
proof -
  let ?s1 = "snd (toggleBookmark demo_loaded (js ''b''))"
  let ?s2 = "snd (toggleBookmark ?s1 (js ''b''))"
  have b: "bookmarkedExercises demo_loaded = JArr (map JStr [])"
    by (simp add: demo_loaded_def initial_state_def)
  have b1: "bookmarkedExercises ?s1 = JArr (map JStr [js ''b''])"
    using toggleBookmark_ids [OF b, of "js ''b''"] by simp
  have b2: "bookmarkedExercises ?s2 = JArr []"
    using toggleBookmark_ids [OF b1, of "js ''b''"] by simp
  have l: \<open>localStorage ?s1 = Some (js ''["b"]'')\<close>
    using toggleBookmark_bookmarks(2) [of demo_loaded "[]" "js ''b''"] b b1
    by (simp add: stringify_one del: JSON_stringify.simps)
  from double_toggle_restores [of demo_loaded "[]" "js ''b''"] b
  obtain ids1 t where "bookmarkedExercises ?s1 = JArr (map JStr ids1)"
    and "localStorage ?s1 = Some t" and "JSON_parse t = Inr (JArr (map JStr ids1))"
    by auto
  with b1 l have p: \<open>JSON_parse (js ''["b"]'') = Inr (JArr [JStr (js ''b'')])\<close>
    by simp
  from b b1 b2 l p show ?thesis by simp
qed

subsection \<open>Loading the bookmarks\<close>

text \<open>
  Claim C3, as the script has it. \<^verbatim>\<open>loadBookmarks\<close> catches what \<^verbatim>\<open>JSON.parse\<close>
  throws and nothing in it throws otherwise. An absent slot, or the empty text, leaves
  the bookmarks as they are, which at page load is the empty array. A text that is not
  JSON yields the empty array. A text that is JSON yields the value it denotes, whether
  or not that value is an array of identifiers.
\<close>

theorem loadBookmarks_cases:
  "(localStorage s = None \<or> localStorage s = Some [] \<longrightarrow> loadBookmarks s = s) \<and>
   bookmarkedExercises (loadBookmarks (initial_state p None)) = JArr [] \<and>
   (localStorage s = Some t \<and> t \<noteq> [] \<and> JSON_parse t = Inl e \<longrightarrow>
      bookmarkedExercises (loadBookmarks s) = JArr []) \<and>
   (localStorage s = Some t \<and> t \<noteq> [] \<and> JSON_parse t = Inr v \<longrightarrow>
      bookmarkedExercises (loadBookmarks s) = v)"
  by (auto simp: loadBookmarks_def initial_state_def console_error_def)

lemma parse_samples:
  \<open>JSON_parse (js ''["a"'') = Inl SyntaxError\<close>
  \<open>JSON_parse (js ''["a","b"]'') = Inr (JArr [JStr (js ''a''), JStr (js ''b'')])\<close>
  \<open>JSON_parse (js ''{"a":1}'') = Inr (JObj [(js ''a'', JNum (js ''1''))])\<close>
  by code_simp+

theorem loadBookmarks_cases_witness:
  \<open>loadBookmarks (initial_state demo_page None) = initial_state demo_page None \<and>
   bookmarkedExercises (loadBookmarks (initial_state demo_page (Some (js ''["a"'')))) = JArr [] \<and>
   bookmarkedExercises (loadBookmarks (initial_state demo_page (Some (js ''["a","b"]'')))) =
     JArr [JStr (js ''a''), JStr (js ''b'')]\<close>
proof -
  note c1 = loadBookmarks_cases [THEN conjunct1, rule_format]
  note c3 = loadBookmarks_cases [THEN conjunct2, THEN conjunct2, THEN conjunct1, rule_format]
  note c4 = loadBookmarks_cases [THEN conjunct2, THEN conjunct2, THEN conjunct2, rule_format]
  have 1: "loadBookmarks (initial_state demo_page None) = initial_state demo_page None"
    by (rule c1) (simp add: initial_state_def)
  have 3: \<open>bookmarkedExercises (loadBookmarks (initial_state demo_page (Some (js ''["a"'')))) = JArr []\<close>
    using c3 [of \<open>initial_state demo_page (Some (js ''["a"''))\<close> \<open>js ''["a"''\<close> SyntaxError]
    by (simp add: initial_state_def parse_samples) (simp add: js_def)
  have 4: \<open>bookmarkedExercises (loadBookmarks (initial_state demo_page (Some (js ''["a","b"]'')))) =
     JArr [JStr (js ''a''), JStr (js ''b'')]\<close>
    using c4 [of \<open>initial_state demo_page (Some (js ''["a","b"]''))\<close> \<open>js ''["a","b"]''\<close>
        "JArr [JStr (js ''a''), JStr (js ''b'')]"]
    by (simp add: initial_state_def parse_samples) (simp add: js_def)
  from 1 3 4 show ?thesis by simp
qed

text \<open>
  The claim as the specification states it fails on a slot whose text is JSON but not
  an array of identifiers: the bookmarks become the object that the text denotes, not
  the empty array, and the next toggle throws.
\<close>

theorem loadBookmarks_keeps_object:
  \<open>bookmarkedExercises (loadBookmarks (initial_state demo_page (Some (js ''{"a":1}'')))) =
     JObj [(js ''a'', JNum (js ''1''))] \<and>
   toggleBookmark (loadBookmarks (initial_state demo_page (Some (js ''{"a":1}'')))) (js ''b'') =
     (Thrown TypeError, loadBookmarks (initial_state demo_page (Some (js ''{"a":1}''))))\<close>
proof -
  have n: \<open>js ''{"a":1}'' \<noteq> []\<close> by (simp add: js_def)
  have 1: \<open>bookmarkedExercises (loadBookmarks (initial_state demo_page (Some (js ''{"a":1}'')))) =
     JObj [(js ''a'', JNum (js ''1''))]\<close>
    using n by (simp add: loadBookmarks_def initial_state_def parse_samples)
  then show ?thesis
    by (simp add: toggleBookmark_def)
qed

end
